theory Spec2Isabelle
  imports Complex_Main
begin

section \<open>Python values and string helpers\<close>

text \<open>
  The script is Python 2. Its strings are byte strings and are modelled as \<open>string\<close>.
  Its integers are \<open>int\<close>. The numbers it computes with, ints and floats alike, are a type
  parameter, and the arithmetic on them is a parameter too (see the memory estimator).
\<close>

text \<open>\<open>str(i)\<close> and \<open>'%i' % i\<close> for a non-negative integer: its decimal digits.\<close>

fun str_nat :: "nat \<Rightarrow> string" where
  "str_nat n = (if n < 10 then [''0123456789'' ! n]
                else str_nat (n div 10) @ [''0123456789'' ! (n mod 10)])"

declare str_nat.simps [simp del]

definition str_int :: "int \<Rightarrow> string" where
  "str_int i = (if i < 0 then ''-'' @ str_nat (nat (- i)) else str_nat (nat i))"

text \<open>Truncation towards zero of a rational (used by the concrete arithmetic of the
  runs below).\<close>

definition py_int :: "rat \<Rightarrow> int" where
  "py_int x = (if 0 \<le> x then \<lfloor>x\<rfloor> else \<lceil>x\<rceil>)"

text \<open>\<open>str.strip()\<close>: leading and trailing whitespace removed.\<close>

definition is_space :: "char \<Rightarrow> bool" where
  "is_space c = (c \<in> set [CHR '' '', CHR 0x09, CHR 0x0A, CHR 0x0B, CHR 0x0C, CHR 0x0D])"

definition strip :: "string \<Rightarrow> string" where
  "strip s = rev (dropWhile is_space (rev (dropWhile is_space s)))"

text \<open>\<open>s.split(c)\<close> with a one-character separator: every occurrence splits, so the
  result is never empty.\<close>

fun split_on :: "char \<Rightarrow> string \<Rightarrow> string list" where
  "split_on c [] = [[]]"
| "split_on c (x # xs) =
     (if x = c then [] # split_on c xs
      else (case split_on c xs of [] \<Rightarrow> [[x]] | w # ws \<Rightarrow> (x # w) # ws))"

text \<open>\<open>s.split()\<close>: the maximal runs of non-whitespace characters.\<close>

fun words_from :: "string \<Rightarrow> string \<Rightarrow> string list" where
  "words_from cur [] = (if cur = [] then [] else [cur])"
| "words_from cur (c # cs) =
     (if is_space c then (if cur = [] then words_from [] cs else cur # words_from [] cs)
      else words_from (cur @ [c]) cs)"

definition split_ws :: "string \<Rightarrow> string list" where
  "split_ws s = words_from [] s"

text \<open>\<open>sep.join(xs)\<close>.\<close>

fun join_with :: "string \<Rightarrow> string list \<Rightarrow> string" where
  "join_with sep [] = []"
| "join_with sep [x] = x"
| "join_with sep (x # y # ys) = x @ sep @ join_with sep (y # ys)"

text \<open>\<open>sub in s\<close> on strings.\<close>

primrec contains :: "string \<Rightarrow> string \<Rightarrow> bool" where
  "contains sub [] = (sub = [])"
| "contains sub (c # cs) = (take (length sub) (c # cs) = sub \<or> contains sub cs)"

text \<open>\<open>int(s)\<close> on a string: optional surrounding whitespace, an optional sign, then
  decimal digits; anything else raises \<open>ValueError\<close> (here \<open>None\<close>).\<close>

definition is_digit :: "char \<Rightarrow> bool" where
  "is_digit c = (c \<in> set ''0123456789'')"

definition digits_val :: "string \<Rightarrow> nat" where
  "digits_val ds = foldl (\<lambda>acc c. 10 * acc + (of_char c - 48)) 0 ds"

definition parse_int :: "string \<Rightarrow> int option" where
  "parse_int s =
     (let t = strip s;
          neg = (t \<noteq> [] \<and> hd t = CHR ''-'');
          ds = (if t \<noteq> [] \<and> (hd t = CHR ''-'' \<or> hd t = CHR ''+'') then tl t else t)
      in if ds \<noteq> [] \<and> list_all is_digit ds
         then Some (if neg then - int (digits_val ds) else int (digits_val ds))
         else None)"

text \<open>\<open>os.path\<close> on POSIX: \<open>join\<close> (two arguments), \<open>split\<close>, \<open>dirname\<close>, \<open>basename\<close>.\<close>

definition path_join :: "string \<Rightarrow> string \<Rightarrow> string" where
  "path_join a b =
     (if b \<noteq> [] \<and> hd b = CHR ''/'' then b
      else if a = [] \<or> last a = CHR ''/'' then a @ b
      else a @ ''/'' @ b)"

definition path_split :: "string \<Rightarrow> string \<times> string" where
  "path_split p =
     (let not_slash = (\<lambda>c. c \<noteq> CHR ''/'');
          tail = rev (takeWhile not_slash (rev p));
          head = rev (dropWhile not_slash (rev p))
      in (if head \<noteq> [] \<and> filter not_slash head \<noteq> []
          then rev (dropWhile (\<lambda>c. c = CHR ''/'') (rev head)) else head, tail))"

definition dirname :: "string \<Rightarrow> string" where
  "dirname p = fst (path_split p)"

definition basename :: "string \<Rightarrow> string" where
  "basename p = snd (path_split p)"

text \<open>A text given line by line, each line ended by a newline.\<close>

definition unlines :: "string list \<Rightarrow> string" where
  "unlines ls = concat (map (\<lambda>l. l @ ''\<newline>'') ls)"

section \<open>Exceptions\<close>

text \<open>
  The exceptions the script distinguishes: \<open>subprocess.CalledProcessError\<close> with the
  output it captured, \<open>KeyboardInterrupt\<close>, and every other exception under its class name.
\<close>

datatype exn = CalledProcessError string | KeyboardInterrupt | PyError string

section \<open>Numbers and the memory estimator\<close>

text \<open>
  The numbers of the script are Python ints and IEEE doubles: the image size is
  \<open>int(...)/1e6\<close>, a double, and \<open>4*imagesize + 500\<close> and \<open>memory<need\<close> are evaluated in
  the arithmetic of their operands. The model takes the type of numbers and the operations
  the script applies to them as parameters and assumes nothing about them, so that every
  statement about a sum or a comparison is about the value the program computes, with the
  rounding the program's arithmetic has.
  \<^item> \<open>num_of_int i\<close>: the Python int \<open>i\<close> as a number (the literals 4 and 500);
  \<^item> \<open>num_mul\<close>, \<open>num_add\<close>: \<open>x * y\<close> and \<open>x + y\<close>;
  \<^item> \<open>num_less\<close>: \<open>x < y\<close>;
  \<^item> \<open>num_percent_i x\<close>: the digits \<open>'%i' % x\<close> prints, or the exception the conversion
    raises (for a float that is infinite or not a number).
\<close>

record 'n arith =
  num_of_int :: "int \<Rightarrow> 'n"
  num_mul :: "'n \<Rightarrow> 'n \<Rightarrow> 'n"
  num_add :: "'n \<Rightarrow> 'n \<Rightarrow> 'n"
  num_less :: "'n \<Rightarrow> 'n \<Rightarrow> bool"
  num_percent_i :: "'n \<Rightarrow> exn + string"

text \<open>
  \<^verbatim>\<open>
  def memory_check(imagesize, memory, verbose=False):
      need = 4*imagesize + 500
      if memory is None:
          if verbose: print("Automatically setting memory allocation for job to %iMB."%need)
          return need
      elif memory<need:
          if verbose: print("Warning: you allocated %iMB of memory for this job which is less
                             than the prediceted minumum needed of %iMB; job may fail."%(memory,need))
          return memory
      else:
          return memory
  \<close>
  The function prints and returns; the model returns the printed lines together with the
  returned number, or the exception of a \<open>%i\<close> conversion, which is raised before anything
  is printed. The messages take the digits the conversions gave.
\<close>

definition auto_memory_msg :: "string \<Rightarrow> string" where
  "auto_memory_msg need_digits =
     ''Automatically setting memory allocation for job to '' @ need_digits @ ''MB.''"

definition low_memory_msg :: "string \<Rightarrow> string \<Rightarrow> string" where
  "low_memory_msg memory_digits need_digits =
     ''Warning: you allocated '' @ memory_digits
       @ ''MB of memory for this job which is less than the prediceted minumum needed of ''
       @ need_digits @ ''MB; job may fail.''"

definition memory_check :: "'n arith \<Rightarrow> 'n \<Rightarrow> 'n option \<Rightarrow> bool \<Rightarrow> exn + string list \<times> 'n" where
  "memory_check ar imagesize memory verbose =
     (let need = num_add ar (num_mul ar (num_of_int ar 4) imagesize) (num_of_int ar 500) in
      case memory of
        None \<Rightarrow>
          if verbose then
            (case num_percent_i ar need of
               Inl e \<Rightarrow> Inl e
             | Inr need_digits \<Rightarrow> Inr ([auto_memory_msg need_digits], need))
          else Inr ([], need)
      | Some m \<Rightarrow>
          if num_less ar m need then
            if verbose then
              (case num_percent_i ar m of
                 Inl e \<Rightarrow> Inl e
               | Inr memory_digits \<Rightarrow>
                   (case num_percent_i ar need of
                      Inl e \<Rightarrow> Inl e
                    | Inr need_digits \<Rightarrow> Inr ([low_memory_msg memory_digits need_digits], m)))
            else Inr ([], m)
          else Inr ([], m))"

text \<open>The arithmetic of Python ints, which is exact.\<close>

definition int_numbers :: "int arith" where
  "int_numbers = \<lparr>num_of_int = (\<lambda>i. i), num_mul = (\<lambda>x y. x * y), num_add = (\<lambda>x y. x + y),
                   num_less = (\<lambda>x y. x < y), num_percent_i = (\<lambda>x. Inr (str_int x))\<rparr>"

section \<open>The state of a run and the external world\<close>


text \<open>
  What a run does that can be observed: the shell command lines it hands to
  \<open>check_output(..., shell=True)\<close>, the argument vectors it executes directly, and the
  lines it prints.
\<close>

datatype event = Sh string | Exec "string list" | Print string

text \<open>The shell command lines among the events, in order.\<close>

definition commands :: "event list \<Rightarrow> string list" where
  "commands tr = concat (map (\<lambda>ev. case ev of Sh c \<Rightarrow> [c] | Exec argv \<Rightarrow> [] | Print l \<Rightarrow> []) tr)"

text \<open>
  An extra input file as the caller gives it, \<open>(open_name, contents, flags)\<close>, and an
  entry of the list after line 217 has rebound it: the second component is then either the
  pair \<open>(basename(open_name), contents)\<close> of an inline file or the name of a file staged
  in the download hierarchy.
\<close>

type_synonym raw_file = "string \<times> string \<times> string list"

datatype payload = Inline string string | Staged string

type_synonym in_file = "string \<times> payload \<times> string list"

text \<open>An extra option of \<open>vbox_job.xml\<close>: a bare flag, or a dict with one key and value.\<close>

datatype vbox_opt = Flag string | Setting string string

text \<open>Values of the \<open>create_work_args\<close> dict.\<close>

datatype 'n argval = Num 'n | Str string

type_synonym 'n dict = "(string \<times> 'n argval) list"

fun dict_set :: "string \<Rightarrow> 'n argval \<Rightarrow> 'n dict \<Rightarrow> 'n dict" where
  "dict_set k v [] = [(k, v)]"
| "dict_set k v ((k', v') # d) = (if k = k' then (k, v) # d else (k', v') # dict_set k v d)"

text \<open>
  The image manifest as \<open>json.load\<close> returns it: a list of objects; of each object the
  model keeps the keys whose values are lists of strings (\<open>Layers\<close>, \<open>RepoTags\<close>).
\<close>

type_synonym manifest = "(string \<times> string list) list list"

text \<open>An \<open>ElementTree\<close> element: tag, text, children.\<close>

datatype xml = Element (xml_tag: string) (xml_text: "string option") (xml_children: "xml list")

text \<open>
  The state of a run: the world outside the process (file system, Docker daemon, BOINC
  project, key database), the observable events so far, the list objects of the heap that
  hold extra input files (a list is addressed by its index, so that the caller's list and
  the function's variable can be the same object), and the local variable \<open>tmpdir\<close>,
  which the \<open>finally\<close> block reads (None while it is unbound).
\<close>

record 'w state =
  world :: 'w
  trace :: "event list"
  heap :: "raw_file list list"
  tmpdir_local :: "string option"

text \<open>
  Everything the script calls outside its own file is a parameter: nothing is assumed
  about what the commands and library functions do to the world or return.
  \<^item> \<open>check_output merged cmd\<close>: \<open>subprocess.check_output(cmd, shell=True)\<close>, with
    \<open>stderr=STDOUT\<close> when \<open>merged\<close>; a non-zero exit is \<open>Inl (CalledProcessError out)\<close>;
  \<^item> \<open>check_output_argv\<close>: \<open>check_output\<close> of an argument list, without a shell;
  \<^item> \<open>mkdtemp\<close>, \<open>exists\<close>: \<open>tempfile.mkdtemp\<close>, \<open>os.path.exists\<close>;
  \<^item> \<open>read_file p\<close>: \<open>open(p).read()\<close>; \<open>open_write p\<close>: \<open>open(p,'w')\<close>;
    \<open>write_file p text\<close>: \<open>write(text)\<close> on the file opened at \<open>p\<close>;
  \<^item> \<open>load_manifest_tar p\<close>: \<open>json.load(tarfile.open(p).extractfile('manifest.json'))\<close>;
    \<open>load_manifest_file p\<close>: \<open>json.load(open(p))\<close>;
  \<^item> \<open>dir_hier_path\<close>, \<open>create_work\<close>: the functions imported from \<open>Boinc.create_work\<close>;
  \<^item> \<open>uuid4\<close>: the 32 hexadecimal digits of a fresh \<open>uuid.uuid4()\<close>;
  \<^item> \<open>master_hostname\<close>:
    \<open>urlparse(configxml.ConfigFile().read().config.master_url).hostname\<close>;
  \<^item> \<open>keys_db_insert client_key client_username server_key\<close>: the \<open>sqlite3\<close> block of
    lines 163 to 169;
  \<^item> \<open>toprettyxml\<close>: \<open>minidom.parseString(ET.tostring(root, 'utf-8')).toprettyxml(indent=' '*4)\<close>;
  \<^item> \<open>str_format\<close>: \<open>str.format\<close> with the variables of the frame, on a string that has
    braces in it;
  \<^item> \<open>numbers\<close>: the arithmetic of the numbers; \<open>int_over_1e6 i\<close>: \<open>i/1e6\<close> for an int
    \<open>i\<close>; \<open>int_of_num x\<close>: \<open>int(x)\<close>; \<open>int_times_1e6 i\<close>: \<open>i*1e6\<close> for an int \<open>i\<close>.
    Each of the three raises where the conversion between int and float does.
\<close>

record ('w, 'n) env =
  check_output :: "bool \<Rightarrow> string \<Rightarrow> 'w \<Rightarrow> (exn + string) \<times> 'w"
  check_output_argv :: "string list \<Rightarrow> 'w \<Rightarrow> (exn + string) \<times> 'w"
  mkdtemp :: "'w \<Rightarrow> (exn + string) \<times> 'w"
  exists :: "string \<Rightarrow> 'w \<Rightarrow> bool"
  read_file :: "string \<Rightarrow> 'w \<Rightarrow> exn + string"
  open_write :: "string \<Rightarrow> 'w \<Rightarrow> (exn + unit) \<times> 'w"
  write_file :: "string \<Rightarrow> string \<Rightarrow> 'w \<Rightarrow> (exn + unit) \<times> 'w"
  load_manifest_tar :: "string \<Rightarrow> 'w \<Rightarrow> exn + manifest"
  load_manifest_file :: "string \<Rightarrow> 'w \<Rightarrow> exn + manifest"
  dir_hier_path :: "string \<Rightarrow> 'w \<Rightarrow> (exn + string) \<times> 'w"
  create_work :: "string \<Rightarrow> 'n dict \<Rightarrow> payload list \<Rightarrow> 'w \<Rightarrow> (exn + string) \<times> 'w"
  uuid4 :: "'w \<Rightarrow> string \<times> 'w"
  master_hostname :: "'w \<Rightarrow> (exn + string) \<times> 'w"
  keys_db_insert :: "string \<Rightarrow> string \<Rightarrow> string \<Rightarrow> 'w \<Rightarrow> (exn + unit) \<times> 'w"
  toprettyxml :: "xml \<Rightarrow> exn + string"
  str_format :: "string \<Rightarrow> exn + string"
  numbers :: "'n arith"
  int_over_1e6 :: "int \<Rightarrow> exn + 'n"
  int_of_num :: "'n \<Rightarrow> exn + int"
  int_times_1e6 :: "int \<Rightarrow> exn + 'n"

subsection \<open>Sequencing with exceptions\<close>

text \<open>
  A statement maps the state to a result, a value or the exception it raised, and the
  state it leaves. \<open>bnd\<close> is sequential composition: an exception skips what follows.
  \<open>catch\<close> is \<open>try: ... except:\<close> with a handler that decides by the exception.
\<close>

type_synonym ('w, 'a) prog = "'w state \<Rightarrow> (exn + 'a) \<times> 'w state"

definition ret :: "'a \<Rightarrow> ('w, 'a) prog" where
  "ret x = (\<lambda>s. (Inr x, s))"

definition throw :: "exn \<Rightarrow> ('w, 'a) prog" where
  "throw e = (\<lambda>s. (Inl e, s))"

definition bnd :: "('w, 'a) prog \<Rightarrow> ('a \<Rightarrow> ('w, 'b) prog) \<Rightarrow> ('w, 'b) prog" where
  "bnd m f = (\<lambda>s. case m s of (Inl e, s') \<Rightarrow> (Inl e, s') | (Inr x, s') \<Rightarrow> f x s')"

definition catch :: "('w, 'a) prog \<Rightarrow> (exn \<Rightarrow> ('w, 'a) prog) \<Rightarrow> ('w, 'a) prog" where
  "catch m h = (\<lambda>s. case m s of (Inl e, s') \<Rightarrow> h e s' | (Inr x, s') \<Rightarrow> (Inr x, s'))"

definition emit :: "event \<Rightarrow> ('w, unit) prog" where
  "emit ev = (\<lambda>s. (Inr (), s\<lparr>trace := trace s @ [ev]\<rparr>))"

definition when_do :: "bool \<Rightarrow> ('w, unit) prog \<Rightarrow> ('w, unit) prog" where
  "when_do b m = (if b then m else ret ())"

text \<open>A call that changes the world, a call that only reads it, and a pure partial
  function.\<close>

definition ext :: "('w \<Rightarrow> (exn + 'a) \<times> 'w) \<Rightarrow> ('w, 'a) prog" where
  "ext f = (\<lambda>s. case f (world s) of (r, w') \<Rightarrow> (r, s\<lparr>world := w'\<rparr>))"

definition peek :: "('w \<Rightarrow> exn + 'a) \<Rightarrow> ('w, 'a) prog" where
  "peek f = (\<lambda>s. (f (world s), s))"

definition lift :: "exn + 'a \<Rightarrow> ('w, 'a) prog" where
  "lift r = (\<lambda>s. (r, s))"

text \<open>\<open>print line\<close>.\<close>

definition print :: "string \<Rightarrow> ('w, unit) prog" where
  "print line = emit (Print line)"

text \<open>
  \<open>sh = lambda cmd: check_output(fmt(cmd),shell=True,stderr=STDOUT).strip()\<close>, applied to
  a command line whose placeholders are already filled in.
\<close>

definition sh :: "('w, 'n) env \<Rightarrow> string \<Rightarrow> ('w, string) prog" where
  "sh env cmd =
     bnd (emit (Sh cmd)) (\<lambda>_.
     bnd (ext (check_output env True cmd)) (\<lambda>out.
     ret (strip out)))"

text \<open>
  \<open>fmt\<close> on a string that was built from data (lines 232 and 243): without braces
  \<open>str.format\<close> returns the string as it is; with braces the result is the library's.
\<close>

definition fmt_data :: "('w, 'n) env \<Rightarrow> string \<Rightarrow> ('w, string) prog" where
  "fmt_data env s =
     (if CHR ''{'' \<in> set s \<or> CHR ''}'' \<in> set s then lift (str_format env s) else ret s)"

text \<open>\<open>input_files.append(f)\<close> on the list object at address \<open>a\<close>, and a fresh empty
  list.\<close>

definition append_file :: "nat \<Rightarrow> raw_file \<Rightarrow> ('w, unit) prog" where
  "append_file a f = (\<lambda>s. (Inr (), s\<lparr>heap := (heap s)[a := heap s ! a @ [f]]\<rparr>))"

definition new_list :: "('w, nat) prog" where
  "new_list = (\<lambda>s. (Inr (length (heap s)), s\<lparr>heap := heap s @ [[]]\<rparr>))"

definition read_list :: "nat \<Rightarrow> ('w, raw_file list) prog" where
  "read_list a = (\<lambda>s. (Inr (heap s ! a), s))"

section \<open>The work-unit creator\<close>

subsection \<open>Lines 81 to 90: the image id\<close>

text \<open>The variable \<open>image\<close> of the source is \<open>image_name\<close> here.\<close>

text \<open>
  \<^verbatim>\<open>
  def get_image_id(): return sh('docker inspect --format "{{{{ .Id }}}}" {image}').strip().split(':')[1]
  try:
      image_id = get_image_id()
  except CalledProcessError as e:
      if 'No such image' in e.output:
          if verbose: print fmt("Pulling '{image}'...")
          sh('docker pull {image}')
          image_id = get_image_id()
      else:
          raise
  \<close>
\<close>

definition default_tag :: "string \<Rightarrow> string" where
  "default_tag image_name = (if CHR '':'' \<in> set image_name then image_name else image_name @ '':latest'')"

definition inspect_id_cmd :: "string \<Rightarrow> string" where
  \<open>inspect_id_cmd image_name = ''docker inspect --format "{{ .Id }}" '' @ image_name\<close>

definition pull_cmd :: "string \<Rightarrow> string" where
  "pull_cmd image_name = ''docker pull '' @ image_name"

definition get_image_id :: "('w, 'n) env \<Rightarrow> string \<Rightarrow> ('w, string) prog" where
  "get_image_id env image_name =
     bnd (sh env (inspect_id_cmd image_name)) (\<lambda>out.
     case split_on CHR '':'' (strip out) of
       x # image_id # rest \<Rightarrow> ret image_id
     | _ \<Rightarrow> throw (PyError ''IndexError''))"

definition lookup_image_id :: "('w, 'n) env \<Rightarrow> string \<Rightarrow> bool \<Rightarrow> ('w, string) prog" where
  "lookup_image_id env image_name verbose =
     catch (get_image_id env image_name) (\<lambda>e.
       case e of
         CalledProcessError out \<Rightarrow>
           if contains ''No such image'' out then
             bnd (when_do verbose (print (''Pulling '' @ [CHR 0x27] @ image_name @ [CHR 0x27] @ ''...''))) (\<lambda>_.
             bnd (sh env (pull_cmd image_name)) (\<lambda>_.
             get_image_id env image_name))
           else throw e
       | _ \<Rightarrow> throw e)"

subsection \<open>Lines 91 to 97: file names and the memory bound\<close>

definition gz_suffix :: "bool \<Rightarrow> string" where
  "gz_suffix native_unzip = (if \<not> native_unzip then ''.manual.gz'' else [])"

definition inspect_size_cmd :: "string \<Rightarrow> string" where
  \<open>inspect_size_cmd image_name = ''docker inspect --format "{{ .Size }}" '' @ image_name\<close>

primrec print_lines :: "string list \<Rightarrow> ('w, unit) prog" where
  "print_lines [] = ret ()"
| "print_lines (l # ls) = bnd (print l) (\<lambda>_. print_lines ls)"

text \<open>
  \<open>memory = int(memory_check(int(sh('docker inspect --format "{{{{ .Size }}}}" {image}'))/1e6,
  memory, verbose))\<close>
\<close>

definition estimate_memory :: "('w, 'n) env \<Rightarrow> string \<Rightarrow> 'n option \<Rightarrow> bool \<Rightarrow> ('w, int) prog" where
  "estimate_memory env image_name memory verbose =
     bnd (sh env (inspect_size_cmd image_name)) (\<lambda>out.
     case parse_int out of
       None \<Rightarrow> throw (PyError ''ValueError'')
     | Some nbytes \<Rightarrow>
         bnd (lift (int_over_1e6 env nbytes)) (\<lambda>imagesize.
         case memory_check (numbers env) imagesize memory verbose of
           Inl e \<Rightarrow> throw e
         | Inr (printed, m) \<Rightarrow> bnd (print_lines printed) (\<lambda>_. lift (int_of_num env m))))"

subsection \<open>Lines 99 to 106: the manifest, from the cache or from an export\<close>

definition file_exists :: "('w, 'n) env \<Rightarrow> string \<Rightarrow> ('w, bool) prog" where
  "file_exists env p = (\<lambda>s. (Inr (exists env p (world s)), s))"

definition save_cmd :: "string \<Rightarrow> string \<Rightarrow> string" where
  "save_cmd image_name tmpdir = ''docker save '' @ image_name @ '' | tar xf - -C '' @ tmpdir"

text \<open>The result is \<open>(need_extract, manifest)\<close>.\<close>

definition read_manifest ::
  "('w, 'n) env \<Rightarrow> string \<Rightarrow> string \<Rightarrow> string \<Rightarrow> bool \<Rightarrow> bool \<Rightarrow> ('w, bool \<times> manifest) prog" where
  "read_manifest env image_name tmpdir image_path force_reimport verbose =
     bnd (file_exists env image_path) (\<lambda>imported.
     if \<not> force_reimport \<and> imported then
       bnd (when_do verbose (print ''Image already imported into BOINC. Reading existing info...'')) (\<lambda>_.
       bnd (peek (load_manifest_tar env image_path)) (\<lambda>manifest.
       ret (False, manifest)))
     else
       bnd (when_do verbose (print (''Exporting '' @ [CHR 0x27] @ image_name @ [CHR 0x27] @ '' to tar file...''))) (\<lambda>_.
       bnd (sh env (save_cmd image_name tmpdir)) (\<lambda>_.
       bnd (peek (load_manifest_file env (path_join tmpdir ''manifest.json''))) (\<lambda>manifest.
       ret (True, manifest)))))"

subsection \<open>Lines 109 to 130: vbox\_job.xml\<close>

definition render_opt :: "vbox_opt \<Rightarrow> string" where
  "render_opt i =
     (case i of
        Setting k v \<Rightarrow> ''    '' @ ''<'' @ k @ ''>'' @ v @ ''</'' @ k @ ''>''
      | Flag f \<Rightarrow> ''    '' @ ''<'' @ f @ ''/>'')"

definition vbox_options :: "vbox_opt list option \<Rightarrow> bool \<Rightarrow> int \<Rightarrow> vbox_opt list" where
  "vbox_options vbox_job_xml disable_automatic_checkpoints memory =
     (case vbox_job_xml of None \<Rightarrow> [] | Some opts \<Rightarrow> opts)
     @ (if disable_automatic_checkpoints then [Flag ''disable_automatic_checkpoints''] else [])
     @ [Setting ''memory_size_mb'' (str_int memory)]"

definition extra_opts :: "vbox_opt list \<Rightarrow> string" where
  "extra_opts vbox_job_xml = join_with ''\<newline>'' (map render_opt vbox_job_xml)"

definition vbox_job_xml_contents :: "string \<Rightarrow> string" where
  "vbox_job_xml_contents opts = unlines
     ['''',
      ''<vbox_job>'',
      '''',
      ''    <os_name>Linux26_64</os_name>'',
      ''    <enable_isocontextualization>1</enable_isocontextualization>'',
      ''    <enable_shared_directory/>'',
      ''    <enable_network/>'',
      ''    <completion_trigger_file>completion_trigger_file</completion_trigger_file>'',
      '''',
      opts,
      '''',
      ''</vbox_job>'']"

subsection \<open>Lines 133 to 136: the command line\<close>

text \<open>
  \<open>command\<close> is a string or a list of arguments.
  \<^verbatim>\<open>
  def escape_string(s):
      return check_output(["bash","-c",'printf "%q" "$@"','_', s])
  \<close>
\<close>

datatype command = Line string | Words "string list"

definition escape_argv :: "string \<Rightarrow> string list" where
  \<open>escape_argv s = [''bash'', ''-c'', ''printf "%q" "$@"'', ''_'', s]\<close>

definition escape_string :: "('w, 'n) env \<Rightarrow> string \<Rightarrow> ('w, string) prog" where
  "escape_string env s =
     bnd (emit (Exec (escape_argv s))) (\<lambda>_. ext (check_output_argv env (escape_argv s)))"

primrec escape_all :: "('w, 'n) env \<Rightarrow> string list \<Rightarrow> ('w, string list) prog" where
  "escape_all env [] = ret []"
| "escape_all env (c # cs) =
     bnd (escape_string env c) (\<lambda>e. bnd (escape_all env cs) (\<lambda>es. ret (e # es)))"

definition command_words :: "command option \<Rightarrow> string list" where
  "command_words command =
     (case command of None \<Rightarrow> split_ws [] | Some (Line l) \<Rightarrow> split_ws l | Some (Words ws) \<Rightarrow> ws)"

definition command_line :: "('w, 'n) env \<Rightarrow> command option \<Rightarrow> ('w, string) prog" where
  "command_line env command =
     bnd (escape_all env (command_words command)) (\<lambda>escaped. ret (join_with '' '' escaped))"

definition entrypoint_opt :: "string option \<Rightarrow> string" where
  "entrypoint_opt entrypoint =
     (case entrypoint of None \<Rightarrow> [] | Some e \<Rightarrow> if e = [] then [] else ''--entrypoint '' @ e)"

subsection \<open>Lines 138 to 182: sshgrid mode\<close>

text \<open>
  \<^verbatim>\<open>
  def ssh_keygen(tmpdir):
      check_output('echo y | ssh-keygen -C sshgrid -t rsa -b 4096 -P "" -f '+join(tmpdir,'id_rsa'), shell=True)
      with open(join(tmpdir,'id_rsa')) as priv:
          with open(join(tmpdir,'id_rsa.pub')) as pub:
              return pub.read().strip(), priv.read().strip()
  \<close>
\<close>

definition keygen_cmd :: "string \<Rightarrow> string" where
  \<open>keygen_cmd tmpdir =
     ''echo y | ssh-keygen -C sshgrid -t rsa -b 4096 -P "" -f '' @ path_join tmpdir ''id_rsa''\<close>

definition ssh_keygen :: "('w, 'n) env \<Rightarrow> string \<Rightarrow> ('w, string \<times> string) prog" where
  "ssh_keygen env tmpdir =
     bnd (emit (Sh (keygen_cmd tmpdir))) (\<lambda>_.
     bnd (ext (check_output env False (keygen_cmd tmpdir))) (\<lambda>_.
     bnd (peek (read_file env (path_join tmpdir ''id_rsa''))) (\<lambda>priv.
     bnd (peek (read_file env (path_join tmpdir ''id_rsa.pub''))) (\<lambda>pub.
     ret (strip pub, strip priv)))))"

text \<open>\<open>str(uuid())\<close> from the 32 hexadecimal digits: groups of 8, 4, 4, 4 and 12.\<close>

definition uuid_str :: "string \<Rightarrow> string" where
  "uuid_str h = take 8 h @ ''-'' @ take 4 (drop 8 h) @ ''-'' @ take 4 (drop 12 h) @ ''-''
                @ take 4 (drop 16 h) @ ''-'' @ drop 20 h"

definition new_uuid :: "('w, 'n) env \<Rightarrow> ('w, string) prog" where
  "new_uuid env = ext (\<lambda>w. case uuid4 env w of (h, w') \<Rightarrow> (Inr h, w'))"

definition sshgrid_script :: "string \<Rightarrow> string \<Rightarrow> string" where
  \<open>sshgrid_script server client_username = unlines
     ['''',
      ''echo "Starting SSH server..."'',
      ''/etc/rc.d/sshd'',
      '''',
      ''echo 10.0.2.2 '' @ server @ '' >> /etc/hosts # for debugging on local machine'',
      '''',
      ''echo "Reverse tunneling to server..."'',
      ''mkdir /root/.ssh'',
      ''cp /root/shared/id_rsa /root/shared/id_rsa.pub /root/shared/authorized_keys /root/.ssh'',
      ''chmod 600 /root/.ssh/id_rsa'',
      ''ssh -o StrictHostKeyChecking=no -p 422 -NTR 0:localhost:22 '' @ client_username @ ''@'' @ server]\<close>

text \<open>
  Reading a variable: the value bound to the name in the scope, \<open>NameError\<close> when the
  name is bound neither in the function nor in the module.
\<close>

definition load_name :: "string \<Rightarrow> (string \<times> string) list \<Rightarrow> exn + string" where
  "load_name name scope = (case map_of scope name of None \<Rightarrow> Inl (PyError ''NameError'') | Some v \<Rightarrow> Inr v)"

text \<open>
  The body of \<open>if sshgrid_mode:\<close>. Line 173 reads \<open>server_pub\<close>; the string variables
  bound at that point are the ones listed (line 161 binds the second public key to \<open>_\<close>),
  and the module binds no global of that name. The result is \<open>(sshgrid, create_work_args)\<close>.
\<close>

definition sshgrid_setup ::
  "('w, 'n) env \<Rightarrow> nat \<Rightarrow> string \<Rightarrow> string \<Rightarrow> string \<Rightarrow> string \<Rightarrow> string \<Rightarrow> string \<Rightarrow> bool \<Rightarrow> 'n dict
     \<Rightarrow> ('w, string \<times> 'n dict) prog" where
  "sshgrid_setup env input_files tmpdir image_name image_id command entrypoint appname verbose
       create_work_args =
     bnd (when_do verbose (print ''Configuring sshgrid job...'')) (\<lambda>_.
     bnd (ext (master_hostname env)) (\<lambda>server.
     bnd (new_uuid env) (\<lambda>h.
     let client_username = ''sshgrid-'' @ uuid_str h;
         sshgrid = sshgrid_script server client_username in
     bnd (ssh_keygen env tmpdir) (\<lambda>(client_pub, client_priv).
     bnd (ssh_keygen env tmpdir) (\<lambda>(underscore, server_priv).
     bnd (ext (keys_db_insert env client_priv client_username server_priv)) (\<lambda>_.
     bnd (append_file input_files (''shared/id_rsa'', client_priv, [])) (\<lambda>_.
     bnd (append_file input_files (''shared/id_rsa.pub'', client_pub, [])) (\<lambda>_.
     bnd (lift (load_name ''server_pub''
            [(''image'', image_name), (''image_id'', image_id), (''tmpdir'', tmpdir),
             (''command'', command), (''entrypoint'', entrypoint), (''appname'', appname),
             (''server'', server), (''client_username'', client_username),
             (''sshgrid'', sshgrid), (''client_pub'', client_pub),
             (''client_priv'', client_priv), (''_'', underscore),
             (''server_priv'', server_priv)])) (\<lambda>server_pub.
     bnd (append_file input_files (''shared/authorized_keys'', server_pub, [])) (\<lambda>_.
     ret (sshgrid,
          dict_set ''target_nresults'' (Num (num_of_int (numbers env) 1))
            (dict_set ''max_error_results'' (Num (num_of_int (numbers env) 1))
              (dict_set ''max_success_results'' (Num (num_of_int (numbers env) 1))
                (dict_set ''max_total_results'' (Num (num_of_int (numbers env) 1)) create_work_args))))))))))))))"

subsection \<open>Lines 184 to 213: the boinc\_app script\<close>

definition boinc_app_script ::
  "string \<Rightarrow> string \<Rightarrow> string \<Rightarrow> string \<Rightarrow> string \<Rightarrow> string \<Rightarrow> string" where
  \<open>boinc_app_script sshgrid prerun entrypoint image_name command postrun = unlines
     ['''',
      ''#!/bin/sh'',
      ''set -e '',
      '''',
      ''echo "Importing Docker image from BOINC..."'',
      ''mkdir -p /tmp/image/combined'',
      ''for f in /root/shared/image/*.tar.manual.gz; do [ -e $f ] && gunzip -c $f > /tmp/image/$(basename $f .manual.gz); done'',
      ''cat $(for f in /root/shared/image/*.tar /tmp/image/*.tar; do [ -e $f ] && echo $f; done) | tar xi -C /tmp/image/combined'',
      ''rm  /tmp/image/*.tar'',
      ''tar cf - -C /tmp/image/combined . | docker load'',
      ''rm -rf /tmp/image'',
      '''',
      ''echo "Prerun diagnostics..."'',
      ''docker images'',
      ''docker ps -a'',
      ''du -sh /var/lib/docker'',
      ''free -m'',
      '''',
      sshgrid,
      '''',
      ''echo "Prerun commands..."'',
      prerun,
      '''',
      ''echo "Running... "'',
      ''docker run --rm -v /root/shared:/root/shared '' @ entrypoint @ '' '' @ image_name @ '' '' @ command,
      '''',
      ''echo "Postrun commands..."'',
      postrun]\<close>

subsection \<open>Lines 216 to 248: the layers and the image metadata\<close>

text \<open>
  Line 217 binds \<open>input_files\<close> to a new list; from there on the variable no longer
  names the list object of the heap, and the new list is a value of the model.
\<close>

definition rebind :: "raw_file list \<Rightarrow> in_file list" where
  "rebind files = map (\<lambda>(open_name, contents, flags). (open_name, Inline (basename open_name) contents, flags)) files"

definition layer_flags :: "bool \<Rightarrow> string list" where
  "layer_flags native_unzip = [''sticky'', ''no_delete''] @ (if native_unzip then [''gzip''] else [])"

definition gzip_cmd :: "bool \<Rightarrow> string \<Rightarrow> string" where
  "gzip_cmd native_unzip path_tar =
     (if native_unzip then ''gzip -fk '' @ path_tar else ''gzip -fS .manual.gz '' @ path_tar)"

text \<open>The body of the two \<open>if\<close> statements of lines 231 and 242: the message, \<open>tar\<close>,
  \<open>gzip\<close>.\<close>

definition archive :: "('w, 'n) env \<Rightarrow> bool \<Rightarrow> bool \<Rightarrow> string \<Rightarrow> string \<Rightarrow> string \<Rightarrow> ('w, unit) prog" where
  "archive env verbose native_unzip msg tar_cmd path_tar =
     bnd (when_do verbose (bnd (fmt_data env msg) print)) (\<lambda>_.
     bnd (sh env tar_cmd) (\<lambda>_.
     bnd (sh env (gzip_cmd native_unzip path_tar)) (\<lambda>_.
     ret ())))"

definition layer_tar_cmd :: "string \<Rightarrow> string \<Rightarrow> string \<Rightarrow> string" where
  "layer_tar_cmd layer_path_tar tmpdir layer_id =
     ''tar cvf '' @ layer_path_tar @ '' -C '' @ tmpdir @ '' '' @ layer_id"

text \<open>One pass of the loop of line 224; the result is the entry appended at line 230.\<close>

definition package_layer ::
  "('w, 'n) env \<Rightarrow> string \<Rightarrow> bool \<Rightarrow> bool \<Rightarrow> bool \<Rightarrow> bool \<Rightarrow> string \<Rightarrow> ('w, in_file) prog" where
  "package_layer env tmpdir native_unzip force_reimport need_extract verbose layer =
     (let layer_id = fst (path_split layer);
          layer_filename_tar = ''layer_'' @ layer_id @ ''.tar'';
          layer_filename = layer_filename_tar @ gz_suffix native_unzip in
      bnd (ext (dir_hier_path env layer_filename)) (\<lambda>layer_path.
      let layer_path_tar = path_join (dirname layer_path) layer_filename_tar in
      bnd (file_exists env layer_path) (\<lambda>present.
      bnd (when_do (force_reimport \<or> (need_extract \<and> \<not> present))
             (archive env verbose native_unzip
                (''Creating input file for layer '' @ take 12 layer_id @ ''...'')
                (layer_tar_cmd layer_path_tar tmpdir layer_id) layer_path_tar)) (\<lambda>_.
      ret (''shared/image/'' @ layer_filename, Staged layer_filename, layer_flags native_unzip)))))"

primrec package_layers ::
  "('w, 'n) env \<Rightarrow> string \<Rightarrow> bool \<Rightarrow> bool \<Rightarrow> bool \<Rightarrow> bool \<Rightarrow> string list \<Rightarrow> in_file list
     \<Rightarrow> ('w, in_file list) prog" where
  "package_layers env tmpdir native_unzip force_reimport need_extract verbose [] input_files =
     ret input_files"
| "package_layers env tmpdir native_unzip force_reimport need_extract verbose (layer # layers) input_files =
     bnd (package_layer env tmpdir native_unzip force_reimport need_extract verbose layer) (\<lambda>entry.
     package_layers env tmpdir native_unzip force_reimport need_extract verbose layers
       (input_files @ [entry]))"

text \<open>\<open>manifest[0]['Layers']\<close>.\<close>

definition manifest_layers :: "manifest \<Rightarrow> exn + string list" where
  "manifest_layers manifest =
     (case manifest of
        [] \<Rightarrow> Inl (PyError ''IndexError'')
      | first # others \<Rightarrow>
          (case map_of first ''Layers'' of
             None \<Rightarrow> Inl (PyError ''KeyError'')
           | Some layers \<Rightarrow> Inr layers))"

definition image_tar_cmd :: "string \<Rightarrow> string \<Rightarrow> string \<Rightarrow> string" where
  "image_tar_cmd image_path_tar tmpdir image_id =
     ''tar cvf '' @ image_path_tar @ '' -C '' @ tmpdir @ '' '' @ image_id
       @ ''.json manifest.json repositories''"

text \<open>Lines 241 to 248; the result is the entry appended at line 241.\<close>

definition package_image ::
  "('w, 'n) env \<Rightarrow> string \<Rightarrow> bool \<Rightarrow> bool \<Rightarrow> bool \<Rightarrow> bool \<Rightarrow> string \<Rightarrow> string \<Rightarrow> string
     \<Rightarrow> ('w, in_file) prog" where
  "package_image env tmpdir native_unzip force_reimport need_extract verbose image_id
       image_filename image_path_tar =
     bnd (when_do (force_reimport \<or> need_extract)
            (archive env verbose native_unzip
               (''Creating input file for image '' @ take 12 image_id @ ''...'')
               (image_tar_cmd image_path_tar tmpdir image_id) image_path_tar)) (\<lambda>_.
     ret (''shared/image/'' @ image_filename, Staged image_filename, layer_flags native_unzip))"

subsection \<open>Lines 250 to 266: the input template and the submission\<close>

text \<open>
  \<^verbatim>\<open>
  root = ET.Element("input_template")
  workunit = ET.SubElement(root, "workunit")
  for i,(open_name,_,flags) in enumerate(input_files):
      fileinfo = ET.SubElement(root, "file_info")
      ET.SubElement(fileinfo, "number").text = str(i)
      for flag in flags: ET.SubElement(fileinfo, flag)
      fileref = ET.SubElement(workunit, "file_ref")
      ET.SubElement(fileref, "file_number").text = str(i)
      ET.SubElement(fileref, "open_name").text = open_name
      ET.SubElement(fileref, "copy_file")
  \<close>
  \<open>SubElement\<close> appends a new child to its parent. The loop appends to two elements,
  \<open>root\<close> and its first child \<open>workunit\<close>; the model carries the children each has
  received so far and builds the tree at the end.
\<close>

definition file_info :: "nat \<Rightarrow> string list \<Rightarrow> xml" where
  "file_info i flags =
     Element ''file_info'' None
       (Element ''number'' (Some (str_nat i)) [] # map (\<lambda>flag. Element flag None []) flags)"

definition file_ref :: "nat \<Rightarrow> string \<Rightarrow> xml" where
  "file_ref i open_name =
     Element ''file_ref'' None
       [Element ''file_number'' (Some (str_nat i)) [],
        Element ''open_name'' (Some open_name) [],
        Element ''copy_file'' None []]"

fun template_loop :: "nat \<Rightarrow> in_file list \<Rightarrow> xml list \<Rightarrow> xml list \<Rightarrow> xml list \<times> xml list" where
  "template_loop i [] file_infos file_refs = (file_infos, file_refs)"
| "template_loop i ((open_name, payload, flags) # rest) file_infos file_refs =
     template_loop (Suc i) rest (file_infos @ [file_info i flags]) (file_refs @ [file_ref i open_name])"

definition input_template :: "in_file list \<Rightarrow> xml" where
  "input_template input_files =
     (case template_loop 0 input_files [] [] of
        (file_infos, file_refs) \<Rightarrow>
          Element ''input_template'' None (Element ''workunit'' None file_refs # file_infos))"

text \<open>Reading a tree back, as \<open>findall\<close> and \<open>findtext\<close> of \<open>ElementTree\<close> do.\<close>

definition findall :: "string \<Rightarrow> xml \<Rightarrow> xml list" where
  "findall t el = filter (\<lambda>c. xml_tag c = t) (xml_children el)"

definition findtext :: "string \<Rightarrow> xml \<Rightarrow> string option" where
  "findtext t el = (case findall t el of [] \<Rightarrow> None | c # cs \<Rightarrow> xml_text c)"

text \<open>\<open>root.findall('workunit/file_ref')\<close>.\<close>

definition template_file_refs :: "xml \<Rightarrow> xml list" where
  "template_file_refs root_element =
     concat (map (findall ''file_ref'') (findall ''workunit'' root_element))"

text \<open>
  Lines 251 to 266. \<open>open(template_file,'w')\<close> is evaluated before the argument of
  \<open>write\<close>.
\<close>

definition submit ::
  "('w, 'n) env \<Rightarrow> string \<Rightarrow> string \<Rightarrow> 'n dict \<Rightarrow> in_file list \<Rightarrow> bool \<Rightarrow> ('w, string) prog" where
  "submit env tmpdir appname create_work_args input_files verbose =
     bnd (when_do verbose (print ''Creating input template for job...'')) (\<lambda>_.
     let root_element = input_template input_files in
     bnd (new_uuid env) (\<lambda>h.
     let template_file = path_join tmpdir (''boinc2docker_in_'' @ h) in
     bnd (ext (open_write env template_file)) (\<lambda>_.
     bnd (lift (toprettyxml env root_element)) (\<lambda>pretty.
     bnd (ext (write_file env template_file pretty)) (\<lambda>_.
     bnd (ext (create_work env appname
                 (dict_set ''wu_template'' (Str template_file) create_work_args)
                 (map (\<lambda>(open_name, f, flags). f) input_files))) (\<lambda>out.
     ret (strip out)))))))"

subsection \<open>Lines 76 to 266: the body of the try statement\<close>

definition bind_tmpdir :: "string \<Rightarrow> ('w, unit) prog" where
  "bind_tmpdir d = (\<lambda>s. (Inr (), s\<lparr>tmpdir_local := Some d\<rparr>))"

text \<open>
  Lines 80 to 266: what follows \<open>tmpdir = mkdtemp()\<close>, with \<open>tmpdir\<close> bound. The
  source also appends to the caller's \<open>vbox_job_xml\<close> list and stores into the caller's
  \<open>create_work_args\<close> dict in place; the model passes both on as values and does not keep
  them in the heap. An exception is raised where a call outside the file raises it: a
  \<open>KeyboardInterrupt\<close> is the interruption of such a call.
\<close>

definition export_and_submit ::
  "('w, 'n) env \<Rightarrow> string \<Rightarrow> string \<Rightarrow> command option \<Rightarrow> nat \<Rightarrow> string \<Rightarrow> string option \<Rightarrow> string
     \<Rightarrow> string \<Rightarrow> bool \<Rightarrow> bool \<Rightarrow> bool \<Rightarrow> 'n option \<Rightarrow> bool \<Rightarrow> vbox_opt list option \<Rightarrow> 'n dict
     \<Rightarrow> bool \<Rightarrow> ('w, string) prog" where
  "export_and_submit env tmpdir image_name command input_files appname entrypoint prerun postrun
       sshgrid_mode verbose native_unzip memory disable_automatic_checkpoints vbox_job_xml
       create_work_args force_reimport =
     bnd (lookup_image_id env image_name verbose) (\<lambda>image_id.
     let image_filename_tar = ''image_'' @ image_id @ ''.tar'';
         image_filename = image_filename_tar @ gz_suffix native_unzip in
     bnd (ext (dir_hier_path env image_filename)) (\<lambda>image_path.
     let image_path_tar = path_join (dirname image_path) image_filename_tar in
     bnd (estimate_memory env image_name memory verbose) (\<lambda>memory.
     bnd (lift (int_times_1e6 env memory)) (\<lambda>rsc_memory_bound.
     let create_work_args = dict_set ''rsc_memory_bound'' (Num rsc_memory_bound) create_work_args in
     bnd (read_manifest env image_name tmpdir image_path force_reimport verbose)
       (\<lambda>(need_extract, manifest).
     let contents = vbox_job_xml_contents
           (extra_opts (vbox_options vbox_job_xml disable_automatic_checkpoints memory)) in
     bnd (append_file input_files (''vbox_job.xml'', contents, [])) (\<lambda>_.
     bnd (command_line env command) (\<lambda>command.
     let entrypoint = entrypoint_opt entrypoint in
     bnd (if sshgrid_mode
          then sshgrid_setup env input_files tmpdir image_name image_id command entrypoint
                 appname verbose create_work_args
          else ret ([], create_work_args)) (\<lambda>(sshgrid, create_work_args).
     let script = boinc_app_script sshgrid prerun entrypoint image_name command postrun in
     bnd (append_file input_files (''shared/boinc_app'', script, [])) (\<lambda>_.
     bnd (read_list input_files) (\<lambda>files.
     bnd (lift (manifest_layers manifest)) (\<lambda>layers.
     bnd (package_layers env tmpdir native_unzip force_reimport need_extract verbose layers
            (rebind files)) (\<lambda>input_files.
     bnd (package_image env tmpdir native_unzip force_reimport need_extract verbose image_id
            image_filename image_path_tar) (\<lambda>entry.
     submit env tmpdir appname create_work_args (input_files @ [entry]) verbose)))))))))))))"

definition create_work_body ::
  "('w, 'n) env \<Rightarrow> string \<Rightarrow> command option \<Rightarrow> nat \<Rightarrow> string \<Rightarrow> string option \<Rightarrow> string \<Rightarrow> string
     \<Rightarrow> bool \<Rightarrow> bool \<Rightarrow> bool \<Rightarrow> 'n option \<Rightarrow> bool \<Rightarrow> vbox_opt list option \<Rightarrow> 'n dict \<Rightarrow> bool
     \<Rightarrow> ('w, string) prog" where
  "create_work_body env image_name command input_files appname entrypoint prerun postrun
       sshgrid_mode verbose native_unzip memory disable_automatic_checkpoints vbox_job_xml
       create_work_args force_reimport =
     bnd (ext (mkdtemp env)) (\<lambda>tmpdir.
     bnd (bind_tmpdir tmpdir) (\<lambda>_.
     export_and_submit env tmpdir image_name command input_files appname entrypoint prerun
       postrun sshgrid_mode verbose native_unzip memory disable_automatic_checkpoints
       vbox_job_xml create_work_args force_reimport))"

subsection \<open>Lines 268 to 277: the handlers and the cleanup\<close>

text \<open>
  \<^verbatim>\<open>
  except KeyboardInterrupt:
      print("Cleaning up temporary files...")
  except CalledProcessError as e:
      print e.output.strip()
  finally:
      try:
          sh("rm -rf {tmpdir}")
      except:
          pass
  \<close>
  The \<open>finally\<close> block swallows every exception of its own: the \<open>KeyError\<close> of \<open>fmt\<close> when
  \<open>tmpdir\<close> is unbound, and whatever the command raises.
\<close>

definition rm_cmd :: "string \<Rightarrow> string" where
  "rm_cmd tmpdir = ''rm -rf '' @ tmpdir"

definition cleanup :: "('w, 'n) env \<Rightarrow> ('w, unit) prog" where
  "cleanup env =
     (\<lambda>s. case tmpdir_local s of
             None \<Rightarrow> (Inr (), s)
           | Some tmpdir \<Rightarrow> (case sh env (rm_cmd tmpdir) s of (r, s') \<Rightarrow> (Inr (), s')))"

text \<open>
  The try statement around a body that returns the work unit: the result is \<open>Some\<close> of
  what the body returned, \<open>None\<close> when a handler ran and the function fell off its end,
  and the exception when no handler matched.
\<close>

definition try_body :: "('w, 'n) env \<Rightarrow> ('w, string) prog \<Rightarrow> ('w, string option) prog" where
  "try_body env body =
     (\<lambda>s. case body s of
             (Inr wu, s') \<Rightarrow> bnd (cleanup env) (\<lambda>_. ret (Some wu)) s'
           | (Inl KeyboardInterrupt, s') \<Rightarrow>
               bnd (print ''Cleaning up temporary files...'') (\<lambda>_.
               bnd (cleanup env) (\<lambda>_. ret None)) s'
           | (Inl (CalledProcessError out), s') \<Rightarrow>
               bnd (print (strip out)) (\<lambda>_.
               bnd (cleanup env) (\<lambda>_. ret None)) s'
           | (Inl (PyError other), s') \<Rightarrow>
               bnd (cleanup env) (\<lambda>_. throw (PyError other)) s')"

subsection \<open>The function and the command line\<close>

text \<open>
  \<open>input_files\<close> is the address of the caller's list, or \<open>None\<close>. \<open>enter_frame\<close> is
  the entry of a call, where \<open>tmpdir\<close> is unbound, and line 69, which makes a new list
  when none was given; its result is the address of the list the variable \<open>input_files\<close>
  names. \<open>progress_file\<close> is not used by the source.
\<close>

definition enter_frame :: "nat option \<Rightarrow> ('w, nat) prog" where
  "enter_frame input_files =
     bnd (\<lambda>s. (Inr (), s\<lparr>tmpdir_local := None\<rparr>)) (\<lambda>_.
     case input_files of None \<Rightarrow> new_list | Some a \<Rightarrow> ret a)"

definition or_empty_dict :: "'n dict option \<Rightarrow> 'n dict" where
  "or_empty_dict x = (case x of None \<Rightarrow> [] | Some d \<Rightarrow> d)"

definition or_empty :: "string option \<Rightarrow> string" where
  "or_empty x = (case x of None \<Rightarrow> [] | Some v \<Rightarrow> v)"

definition boinc2docker_create_work ::
  "('w, 'n) env \<Rightarrow> string \<Rightarrow> command option \<Rightarrow> nat option \<Rightarrow> string \<Rightarrow> string option \<Rightarrow> string option
     \<Rightarrow> string option \<Rightarrow> bool \<Rightarrow> bool \<Rightarrow> bool \<Rightarrow> 'n option \<Rightarrow> bool \<Rightarrow> string option
     \<Rightarrow> vbox_opt list option \<Rightarrow> 'n dict option \<Rightarrow> bool \<Rightarrow> ('w, string option) prog" where
  "boinc2docker_create_work env image_name command input_files appname entrypoint prerun
       postrun sshgrid_mode verbose native_unzip memory disable_automatic_checkpoints
       progress_file vbox_job_xml create_work_args force_reimport =
     bnd (enter_frame input_files) (\<lambda>input_files.
     try_body env
       (create_work_body env (default_tag image_name) command input_files appname entrypoint
          (or_empty prerun) (or_empty postrun) sshgrid_mode verbose native_unzip memory
          disable_automatic_checkpoints vbox_job_xml (or_empty_dict create_work_args)
          force_reimport))"

text \<open>
  \<^verbatim>\<open>
  wu = boinc2docker_create_work(image=args.IMAGE, command=args.COMMAND, appname=args.appname,
           entrypoint=args.entrypoint, native_unzip=args.native_unzip, memory=args.memory,
           sshgrid_mode=args.sshgrid_mode, create_work_args=read_create_work_args(args),
           verbose=(not args.quiet), force_reimport=args.force_reimport)
  if wu is not None: print wu
  \<close>
  The parsed arguments are parameters; \<open>COMMAND\<close> is a list and \<open>memory\<close> an integer.
\<close>

definition main ::
  "('w, 'n) env \<Rightarrow> string \<Rightarrow> string list \<Rightarrow> string \<Rightarrow> string option \<Rightarrow> bool \<Rightarrow> int option \<Rightarrow> bool
     \<Rightarrow> 'n dict \<Rightarrow> bool \<Rightarrow> bool \<Rightarrow> ('w, unit) prog" where
  "main env IMAGE COMMAND appname entrypoint native_unzip memory sshgrid_mode
       create_work_args quiet force_reimport =
     bnd (boinc2docker_create_work env IMAGE (Some (Words COMMAND)) None appname entrypoint
            None None sshgrid_mode (\<not> quiet) native_unzip
            (map_option (num_of_int (numbers env)) memory) True None
            None (Some create_work_args) force_reimport) (\<lambda>wu.
     case wu of None \<Rightarrow> ret () | Some w \<Rightarrow> print w)"

subsection \<open>Frame conditions\<close>

text \<open>A statement keeps a component \<open>f\<close> of the state when no run of it changes \<open>f\<close>.\<close>

definition keeps :: "('w state \<Rightarrow> 'b) \<Rightarrow> ('w, 'a) prog \<Rightarrow> bool" where
  "keeps f m = (\<forall>s. f (snd (m s)) = f s)"

section \<open>A concrete world\<close>

text \<open>
  A small world on which the functions can be run: a set of existing paths, a Docker
  daemon that has the image \<open>alpine:latest\<close> locally or not and cannot inspect the image
  \<open>broken:latest\<close>, an \<open>rm\<close> that works or not, and a project whose download hierarchy
  is \<open>/dl\<close>.
\<close>

record demo_world =
  present :: "string list"
  pulled :: bool
  rm_works :: bool

definition demo_check_output :: "bool \<Rightarrow> string \<Rightarrow> demo_world \<Rightarrow> (exn + string) \<times> demo_world" where
  "demo_check_output merged cmd w =
     (if cmd = inspect_id_cmd ''alpine:latest'' then
        (if pulled w then (Inr ''sha256:0a1b\<newline>'', w)
         else (Inl (CalledProcessError ''Error: No such image: alpine:latest\<newline>''), w))
      else if cmd = inspect_id_cmd ''broken:latest'' then
        (Inl (CalledProcessError ''Cannot connect to the Docker daemon\<newline>''), w)
      else if cmd = pull_cmd ''alpine:latest'' then (Inr ''Pull complete'', w\<lparr>pulled := True\<rparr>)
      else if cmd = inspect_size_cmd ''alpine:latest'' then (Inr ''5000000\<newline>'', w)
      else if take 7 cmd = ''rm -rf '' then
        (if rm_works w then (Inr [], w\<lparr>present := filter (\<lambda>p. p \<noteq> drop 7 cmd) (present w)\<rparr>)
         else (Inl (CalledProcessError ''rm: cannot remove''), w))
      else (Inr [], w))"

text \<open>
  The numbers of that world are rationals with exact arithmetic. It is Python's arithmetic
  on ints, and on floats wherever operands and results are whole numbers below \<open>2^53\<close>,
  which is where the runs below use it: an image of 5000000 bytes, 520 MB of memory.
\<close>

definition demo_numbers :: "rat arith" where
  "demo_numbers = \<lparr>num_of_int = of_int, num_mul = (\<lambda>x y. x * y), num_add = (\<lambda>x y. x + y),
                    num_less = (\<lambda>x y. x < y), num_percent_i = (\<lambda>x. Inr (str_int (py_int x)))\<rparr>"

definition demo_env :: "(demo_world, rat) env" where
  "demo_env = \<lparr>
     check_output = demo_check_output,
     check_output_argv = (\<lambda>argv w. (Inr (last argv), w)),
     mkdtemp = (\<lambda>w. (Inr ''/tmp/tmpx'', w\<lparr>present := ''/tmp/tmpx'' # present w\<rparr>)),
     exists = (\<lambda>p w. p \<in> set (present w)),
     read_file = (\<lambda>p w. Inr ''key''),
     open_write = (\<lambda>p w. (Inr (), w)),
     write_file = (\<lambda>p t w. (Inr (), w)),
     load_manifest_tar = (\<lambda>p w. Inr [[(''Layers'', [''aa/layer.tar''])]]),
     load_manifest_file = (\<lambda>p w. Inr [[(''Layers'', [''aa/layer.tar''])]]),
     dir_hier_path = (\<lambda>f w. (Inr (''/dl/'' @ f), w)),
     create_work = (\<lambda>appname args files w. (Inr ''wu_1\<newline>'', w)),
     uuid4 = (\<lambda>w. (''0123456789abcdef0123456789abcdef'', w)),
     master_hostname = (\<lambda>w. (Inr ''example.org'', w)),
     keys_db_insert = (\<lambda>client_key client_username server_key w. (Inr (), w)),
     toprettyxml = (\<lambda>x. Inr ''<input_template/>''),
     str_format = (\<lambda>s. Inl (PyError ''KeyError'')),
     numbers = demo_numbers,
     int_over_1e6 = (\<lambda>i. Inr (of_int i / 1000000)),
     int_of_num = (\<lambda>x. Inr (py_int x)),
     int_times_1e6 = (\<lambda>i. Inr (of_int i * 1000000))
   \<rparr>"

definition demo_state :: "string list \<Rightarrow> bool \<Rightarrow> bool \<Rightarrow> raw_file list list \<Rightarrow> demo_world state" where
  "demo_state paths have_image rm_ok objs =
     \<lparr>world = \<lparr>present = paths, pulled = have_image, rm_works = rm_ok\<rparr>,
      trace = [], heap = objs, tmpdir_local = None\<rparr>"

text \<open>
  Two calls on that world, with \<open>verbose\<close> off, no command, and the caller's list at
  address 0 holding one extra file: one for the image that cannot be inspected, one for
  \<open>alpine\<close>.
\<close>

definition run_broken :: "bool \<Rightarrow> (exn + string option) \<times> demo_world state" where
  "run_broken rm_ok =
     boinc2docker_create_work demo_env ''broken'' None (Some 0) ''boinc2docker'' None None None
       False False False None True None None None False
       (demo_state [] True rm_ok [[(''shared/foo'', ''bar'', [])]])"

definition run_alpine :: "bool \<Rightarrow> bool \<Rightarrow> (exn + string option) \<times> demo_world state" where
  "run_alpine have_image sshgrid_mode =
     boinc2docker_create_work demo_env ''alpine'' None (Some 0) ''boinc2docker'' None None None
       sshgrid_mode False False None True None None None False
       (demo_state [] have_image True [[(''shared/foo'', ''bar'', [])]])"

section \<open>Rules for sequencing and frame conditions\<close>

lemma bnd_ret [simp]: "bnd (ret x) f = f x"
  by (simp add: bnd_def ret_def)

lemma bnd_throw [simp]: "bnd (throw e) f = throw e"
  by (simp add: bnd_def throw_def)

lemma bnd_Inr: "m s = (Inr x, s1) \<Longrightarrow> bnd m f s = f x s1"
  by (simp add: bnd_def)

lemma bnd_Inl: "m s = (Inl e, s1) \<Longrightarrow> bnd m f s = (Inl e, s1)"
  by (simp add: bnd_def)


lemma keepsD: "keeps f m \<Longrightarrow> m s = (r, s') \<Longrightarrow> f s' = f s"
  by (metis keeps_def snd_conv)

lemma keeps_ret: "keeps f (ret x)"
  by (simp add: keeps_def ret_def)

lemma keeps_throw: "keeps f (throw e)"
  by (simp add: keeps_def throw_def)

lemma keeps_lift: "keeps f (lift r)"
  by (simp add: keeps_def lift_def)

lemma keeps_peek: "keeps f (peek g)"
  by (simp add: keeps_def peek_def)

lemma keeps_bnd: "keeps f m \<Longrightarrow> (\<And>x. keeps f (g x)) \<Longrightarrow> keeps f (bnd m g)"
  by (auto simp: keeps_def bnd_def split: prod.splits sum.splits) (metis snd_conv)+

lemma keeps_catch: "keeps f m \<Longrightarrow> (\<And>e. keeps f (h e)) \<Longrightarrow> keeps f (catch m h)"
  by (auto simp: keeps_def catch_def split: prod.splits sum.splits) (metis snd_conv)+

lemma keeps_when_do: "keeps f m \<Longrightarrow> keeps f (when_do b m)"
  by (simp add: when_do_def keeps_ret)

lemma keeps_emit: "(\<And>s t. f (s\<lparr>trace := t\<rparr>) = f s) \<Longrightarrow> keeps f (emit ev)"
  by (simp add: keeps_def emit_def)

lemma keeps_ext: "(\<And>s w. f (s\<lparr>world := w\<rparr>) = f s) \<Longrightarrow> keeps f (ext g)"
  by (simp add: keeps_def ext_def split: prod.splits)

lemma keeps_file_exists: "keeps f (file_exists env p)"
  by (simp add: keeps_def file_exists_def)

lemma keeps_read_list: "keeps f (read_list a)"
  by (simp add: keeps_def read_list_def)

lemmas keeps_intros = keeps_ret keeps_throw keeps_lift keeps_peek keeps_bnd keeps_catch
  keeps_when_do keeps_emit keeps_ext keeps_file_exists keeps_read_list


lemma keeps_if: "(b \<Longrightarrow> keeps f m) \<Longrightarrow> (\<not> b \<Longrightarrow> keeps f n) \<Longrightarrow> keeps f (if b then m else n)"
  by simp

lemma keeps_case_prod: "(\<And>a b. keeps f (g a b)) \<Longrightarrow> keeps f (case p of (a, b) \<Rightarrow> g a b)"
  by (cases p) simp

lemma keeps_print: "(\<And>s t. f (s\<lparr>trace := t\<rparr>) = f s) \<Longrightarrow> keeps f (print l)"
  by (simp add: print_def keeps_emit)

lemma keeps_print_lines: "(\<And>s t. f (s\<lparr>trace := t\<rparr>) = f s) \<Longrightarrow> keeps f (print_lines ls)"
  by (induction ls) (simp_all add: keeps_intros keeps_print)

lemma keeps_sh:
  assumes "\<And>s t. f (s\<lparr>trace := t\<rparr>) = f s" "\<And>s w. f (s\<lparr>world := w\<rparr>) = f s"
  shows "keeps f (sh env cmd)"
  unfolding sh_def by (intro keeps_intros assms)

lemma keeps_get_image_id:
  assumes "\<And>s t. f (s\<lparr>trace := t\<rparr>) = f s" "\<And>s w. f (s\<lparr>world := w\<rparr>) = f s"
  shows "keeps f (get_image_id env image_name)"
  unfolding get_image_id_def
  by (intro keeps_bnd keeps_sh assms) (simp add: keeps_intros split: list.split)

lemma keeps_lookup_image_id:
  assumes "\<And>s t. f (s\<lparr>trace := t\<rparr>) = f s" "\<And>s w. f (s\<lparr>world := w\<rparr>) = f s"
  shows "keeps f (lookup_image_id env image_name verbose)"
  unfolding lookup_image_id_def
  by (intro keeps_catch keeps_get_image_id assms)
     (auto intro!: keeps_intros keeps_print keeps_sh keeps_get_image_id assms split: exn.split)

lemma keeps_estimate_memory:
  assumes "\<And>s t. f (s\<lparr>trace := t\<rparr>) = f s" "\<And>s w. f (s\<lparr>world := w\<rparr>) = f s"
  shows "keeps f (estimate_memory env image_name memory verbose)"
  unfolding estimate_memory_def
  by (intro keeps_bnd keeps_sh assms)
     (auto intro!: keeps_intros keeps_print_lines assms split: option.split prod.split sum.split)

lemma keeps_read_manifest:
  assumes "\<And>s t. f (s\<lparr>trace := t\<rparr>) = f s" "\<And>s w. f (s\<lparr>world := w\<rparr>) = f s"
  shows "keeps f (read_manifest env image_name tmpdir image_path force_reimport verbose)"
  unfolding read_manifest_def
  by (intro keeps_bnd keeps_if keeps_intros keeps_print keeps_sh assms)

lemma keeps_escape_string:
  assumes "\<And>s t. f (s\<lparr>trace := t\<rparr>) = f s" "\<And>s w. f (s\<lparr>world := w\<rparr>) = f s"
  shows "keeps f (escape_string env c)"
  unfolding escape_string_def by (intro keeps_intros assms)

lemma keeps_escape_all:
  assumes "\<And>s t. f (s\<lparr>trace := t\<rparr>) = f s" "\<And>s w. f (s\<lparr>world := w\<rparr>) = f s"
  shows "keeps f (escape_all env cs)"
  by (induction cs) (auto intro!: keeps_intros keeps_escape_string assms)

lemma keeps_command_line:
  assumes "\<And>s t. f (s\<lparr>trace := t\<rparr>) = f s" "\<And>s w. f (s\<lparr>world := w\<rparr>) = f s"
  shows "keeps f (command_line env command)"
  unfolding command_line_def by (intro keeps_intros keeps_escape_all assms)

lemma keeps_ssh_keygen:
  assumes "\<And>s t. f (s\<lparr>trace := t\<rparr>) = f s" "\<And>s w. f (s\<lparr>world := w\<rparr>) = f s"
  shows "keeps f (ssh_keygen env tmpdir)"
  unfolding ssh_keygen_def by (intro keeps_intros assms)

lemma keeps_new_uuid: "(\<And>s w. f (s\<lparr>world := w\<rparr>) = f s) \<Longrightarrow> keeps f (new_uuid env)"
  unfolding new_uuid_def by (intro keeps_intros)

lemma keeps_fmt_data: "keeps f (fmt_data env msg)"
  unfolding fmt_data_def by (simp add: keeps_intros)

lemma keeps_archive:
  assumes "\<And>s t. f (s\<lparr>trace := t\<rparr>) = f s" "\<And>s w. f (s\<lparr>world := w\<rparr>) = f s"
  shows "keeps f (archive env verbose native_unzip msg tar_cmd path_tar)"
  unfolding archive_def by (intro keeps_intros keeps_fmt_data keeps_print keeps_sh assms)

lemma keeps_package_layer:
  assumes "\<And>s t. f (s\<lparr>trace := t\<rparr>) = f s" "\<And>s w. f (s\<lparr>world := w\<rparr>) = f s"
  shows "keeps f (package_layer env tmpdir native_unzip force_reimport need_extract verbose layer)"
  unfolding package_layer_def Let_def by (intro keeps_intros keeps_archive assms)

lemma keeps_package_layers:
  assumes "\<And>s t. f (s\<lparr>trace := t\<rparr>) = f s" "\<And>s w. f (s\<lparr>world := w\<rparr>) = f s"
  shows "keeps f (package_layers env tmpdir native_unzip force_reimport need_extract verbose layers files)"
  by (induction layers arbitrary: files) (auto intro!: keeps_intros keeps_package_layer assms)

lemma keeps_package_image:
  assumes "\<And>s t. f (s\<lparr>trace := t\<rparr>) = f s" "\<And>s w. f (s\<lparr>world := w\<rparr>) = f s"
  shows "keeps f (package_image env tmpdir native_unzip force_reimport need_extract verbose image_id image_filename image_path_tar)"
  unfolding package_image_def by (intro keeps_intros keeps_archive assms)

lemma keeps_submit:
  assumes "\<And>s t. f (s\<lparr>trace := t\<rparr>) = f s" "\<And>s w. f (s\<lparr>world := w\<rparr>) = f s"
  shows "keeps f (submit env tmpdir appname create_work_args input_files verbose)"
  unfolding submit_def Let_def by (intro keeps_intros keeps_print keeps_new_uuid assms)


lemma keeps_append_file_tmpdir: "keeps tmpdir_local (append_file a x)"
  by (simp add: keeps_def append_file_def)

lemma keeps_sshgrid_setup_tmpdir:
  "keeps tmpdir_local (sshgrid_setup env a tmpdir image_name image_id command entrypoint appname verbose create_work_args)"
  unfolding sshgrid_setup_def Let_def
  by (intro keeps_intros keeps_print keeps_new_uuid keeps_ssh_keygen keeps_append_file_tmpdir
        allI impI | simp split: prod.split)+

lemma keeps_export_and_submit_tmpdir:
  "keeps tmpdir_local (export_and_submit env tmpdir image_name command a appname entrypoint
       prerun postrun sshgrid_mode verbose native_unzip memory dac vbox_job_xml
       create_work_args force_reimport)"
  unfolding export_and_submit_def Let_def
  by (intro keeps_bnd keeps_case_prod keeps_if keeps_ret keeps_lift keeps_read_list keeps_ext
        keeps_lookup_image_id keeps_estimate_memory keeps_read_manifest
        keeps_append_file_tmpdir keeps_command_line keeps_sshgrid_setup_tmpdir
        keeps_package_layers keeps_package_image keeps_submit) simp_all

lemma cleanup_cases:
  "tmpdir_local s = Some d \<Longrightarrow> cleanup env s = (Inr (), snd (sh env (rm_cmd d) s))"
  "tmpdir_local s = None \<Longrightarrow> cleanup env s = (Inr (), s)"
  by (simp_all add: cleanup_def split: prod.splits)

lemma sh_apply:
  "sh env cmd s =
     (case check_output env True cmd (world s) of
        (Inl e, w) \<Rightarrow> (Inl e, s\<lparr>trace := trace s @ [Sh cmd], world := w\<rparr>)
      | (Inr out, w) \<Rightarrow> (Inr (strip out), s\<lparr>trace := trace s @ [Sh cmd], world := w\<rparr>))"
  by (simp add: sh_def bnd_def emit_def ext_def ret_def split: prod.splits sum.splits)

lemma body_binds_tmpdir:
  assumes "mkdtemp env (world s) = (Inr d, w0)"
    and "create_work_body env image_name command a appname entrypoint prerun postrun
       sshgrid_mode verbose native_unzip memory dac vbox_job_xml create_work_args force_reimport s = (r, s')"
  shows "tmpdir_local s' = Some d"
proof -
  let ?s1 = "s\<lparr>world := w0, tmpdir_local := Some d\<rparr>"
  have "create_work_body env image_name command a appname entrypoint prerun postrun
       sshgrid_mode verbose native_unzip memory dac vbox_job_xml create_work_args force_reimport s
     = export_and_submit env d image_name command a appname entrypoint prerun postrun
       sshgrid_mode verbose native_unzip memory dac vbox_job_xml create_work_args force_reimport ?s1"
    by (simp add: create_work_body_def bnd_def ext_def bind_tmpdir_def assms(1))
  with assms(2) have "tmpdir_local s' = tmpdir_local ?s1"
    using keepsD[OF keeps_export_and_submit_tmpdir] by metis
  then show ?thesis by simp
qed

subsection \<open>Running the model on the concrete world\<close>

text \<open>
  The simplifier runs a composed statement from the left: \<open>bnd\<close> is unfolded where it is
  applied to a state, and what follows a statement is not touched before its result is
  known.
\<close>

lemma bnd_apply: "bnd m f s = (case m s of (Inl e, s') \<Rightarrow> (Inl e, s') | (Inr x, s') \<Rightarrow> f x s')"
  by (simp add: bnd_def)

lemma bnd_cong_weak: "m = m' \<Longrightarrow> s = s' \<Longrightarrow> bnd m f s = bnd m' f s'"
  by simp

lemmas eval_defs = bnd_apply enter_frame_def ret_def try_body_def create_work_body_def ext_def
  demo_env_def demo_state_def bind_tmpdir_def export_and_submit_def lookup_image_id_def catch_def
  get_image_id_def sh_def emit_def default_tag_def demo_check_output_def inspect_id_cmd_def
  cleanup_def print_def rm_cmd_def throw_def pull_cmd_def inspect_size_cmd_def
  estimate_memory_def parse_int_def strip_def is_space_def is_digit_def digits_val_def
  memory_check_def py_int_def demo_numbers_def read_manifest_def file_exists_def peek_def lift_def save_cmd_def
  path_join_def path_split_def dirname_def basename_def append_file_def command_line_def
  command_words_def split_ws_def escape_string_def escape_argv_def entrypoint_opt_def
  or_empty_def or_empty_dict_def when_do_def read_list_def manifest_layers_def
  package_layer_def package_image_def archive_def fmt_data_def gzip_cmd_def layer_tar_cmd_def
  image_tar_cmd_def gz_suffix_def layer_flags_def submit_def new_uuid_def rebind_def
  sshgrid_setup_def ssh_keygen_def keygen_cmd_def load_name_def uuid_str_def new_list_def
  boinc2docker_create_work_def commands_def

lemma enter_frame_apply:
  "enter_frame (Some a) s = (Inr a, s\<lparr>tmpdir_local := None\<rparr>)"
  "enter_frame None s = (Inr (length (heap s)), s\<lparr>tmpdir_local := None, heap := heap s @ [[]]\<rparr>)"
  by (simp_all add: enter_frame_def bnd_def ret_def new_list_def)

lemma enter_frame_world: "enter_frame input_files s = (r, s0) \<Longrightarrow> world s0 = world s \<and> trace s0 = trace s \<and> (\<exists>a. r = Inr a)"
  by (cases input_files) (auto simp: enter_frame_apply)

lemma try_body_apply:
  assumes "body s = (rb, s1)"
  shows "try_body env body s =
     (case rb of
        Inr wu \<Rightarrow> (Inr (Some wu), snd (cleanup env s1))
      | Inl KeyboardInterrupt \<Rightarrow>
          (Inr None, snd (cleanup env (s1\<lparr>trace := trace s1 @ [Print ''Cleaning up temporary files...'']\<rparr>)))
      | Inl (CalledProcessError out) \<Rightarrow>
          (Inr None, snd (cleanup env (s1\<lparr>trace := trace s1 @ [Print (strip out)]\<rparr>)))
      | Inl (PyError other) \<Rightarrow> (Inl (PyError other), snd (cleanup env s1)))"
  using assms
  by (auto simp: try_body_def bnd_def print_def emit_def ret_def throw_def cleanup_def
           split: sum.splits exn.splits prod.splits option.splits)

section \<open>The scratch directory\<close>

text \<open>
  C7, as the code has it. On every exit path of a call that created its scratch directory
  \<open>d\<close> (a work unit returned, a handler run, an exception passed on), the last thing the
  call does is the command \<open>rm -rf d\<close>, and the world it leaves is the one that command
  left. Whatever the command raises is swallowed. So the directory is absent after the call
  when the command succeeded, for an \<open>rm -rf d\<close> whose success removes \<open>d\<close>; when the
  command failed, the call ends all the same and nothing more is tried.
\<close>

theorem scratch_directory_cleanup:
  assumes mk: "mkdtemp env (world s) = (Inr d, w0)"
    and rm: "\<And>w out w'. check_output env True (rm_cmd d) w = (Inr out, w') \<Longrightarrow> \<not> exists env d w'"
    and run: "boinc2docker_create_work env image_name command input_files appname entrypoint
       prerun postrun sshgrid_mode verbose native_unzip memory dac progress_file vbox_job_xml
       create_work_args force_reimport s = (r, s')"
  shows "last (trace s') = Sh (rm_cmd d) \<and>
         (\<exists>w res. check_output env True (rm_cmd d) w = (res, world s') \<and>
                  (\<not> exists env d (world s') \<or> (\<exists>e. res = Inl e)))"
proof -
  obtain a s0 where e: "enter_frame input_files s = (Inr a, s0)" and w: "world s0 = world s"
    using enter_frame_world by (metis surj_pair)
  let ?body = "create_work_body env (default_tag image_name) command a appname entrypoint
          (or_empty prerun) (or_empty postrun) sshgrid_mode verbose native_unzip memory
          dac vbox_job_xml (or_empty_dict create_work_args) force_reimport"
  obtain rb s1 where b: "?body s0 = (rb, s1)" by (metis surj_pair)
  have t: "tmpdir_local s1 = Some d"
    using body_binds_tmpdir[OF _ b] mk w by simp
  have r: "try_body env ?body s0 = (r, s')"
    using run e by (simp add: boinc2docker_create_work_def bnd_Inr)
  have r': "(r, s') = (case rb of
        Inr wu \<Rightarrow> (Inr (Some wu), snd (cleanup env s1))
      | Inl KeyboardInterrupt \<Rightarrow>
          (Inr None, snd (cleanup env (s1\<lparr>trace := trace s1 @ [Print ''Cleaning up temporary files...'']\<rparr>)))
      | Inl (CalledProcessError out) \<Rightarrow>
          (Inr None, snd (cleanup env (s1\<lparr>trace := trace s1 @ [Print (strip out)]\<rparr>)))
      | Inl (PyError other) \<Rightarrow> (Inl (PyError other), snd (cleanup env s1)))"
    using r try_body_apply[where body="?body" and s=s0 and env=env, OF b] by simp
  have "\<exists>t. s' = snd (cleanup env (s1\<lparr>trace := t\<rparr>))"
  proof (cases rb)
    case (Inr wu)
    with r' have "s' = snd (cleanup env (s1\<lparr>trace := trace s1\<rparr>))" by simp
    then show ?thesis ..
  next
    case (Inl e)
    show ?thesis
    proof (cases e)
      case (CalledProcessError out)
      with Inl r' show ?thesis by auto
    next
      case KeyboardInterrupt
      with Inl r' show ?thesis by auto
    next
      case (PyError other)
      with Inl r' have "s' = snd (cleanup env (s1\<lparr>trace := trace s1\<rparr>))" by simp
      then show ?thesis ..
    qed
  qed
  then obtain t where "s' = snd (cleanup env (s1\<lparr>trace := t\<rparr>))" ..
  then have s2: "s' = snd (sh env (rm_cmd d) (s1\<lparr>trace := t\<rparr>))"
    using t by (simp add: cleanup_cases)
  define s2 where "s2 = s1\<lparr>trace := t\<rparr>"
  obtain res w2 where c: "check_output env True (rm_cmd d) (world s2) = (res, w2)"
    by (metis surj_pair)
  have "world s' = w2" "trace s' = trace s2 @ [Sh (rm_cmd d)]"
    using s2 c unfolding s2_def by (auto simp: sh_apply split: sum.splits)
  with c rm show ?thesis by (cases res) auto
qed

theorem scratch_directory_cleanup_witness:
  "mkdtemp demo_env (world (demo_state [] True True [[(''shared/foo'', ''bar'', [])]]))
     = (Inr ''/tmp/tmpx'', \<lparr>present = [''/tmp/tmpx''], pulled = True, rm_works = True\<rparr>)
   \<and> last (trace (snd (run_alpine True False))) = Sh (rm_cmd ''/tmp/tmpx'')
   \<and> (\<exists>w res. check_output demo_env True (rm_cmd ''/tmp/tmpx'') w
                  = (res, world (snd (run_alpine True False)))
         \<and> (\<not> exists demo_env ''/tmp/tmpx'' (world (snd (run_alpine True False)))
            \<or> (\<exists>e. res = Inl e)))"
proof -
  let ?s = "demo_state [] True True [[(''shared/foo'', ''bar'', [])]]"
  have mk: "mkdtemp demo_env (world ?s)
     = (Inr ''/tmp/tmpx'', \<lparr>present = [''/tmp/tmpx''], pulled = True, rm_works = True\<rparr>)"
    by (simp add: demo_env_def demo_state_def)
  have rm: "\<And>w out w'. check_output demo_env True (rm_cmd ''/tmp/tmpx'') w = (Inr out, w')
              \<Longrightarrow> \<not> exists demo_env ''/tmp/tmpx'' w'"
    by (auto simp: demo_env_def demo_check_output_def rm_cmd_def inspect_id_cmd_def pull_cmd_def
          inspect_size_cmd_def split: if_splits)
  have run: "boinc2docker_create_work demo_env ''alpine'' None (Some 0) ''boinc2docker'' None
       None None False False False None True None None None False ?s
     = (fst (run_alpine True False), snd (run_alpine True False))"
    by (simp add: run_alpine_def)
  show ?thesis
    using scratch_directory_cleanup[OF mk rm run] mk by simp
qed

text \<open>
  The claim that the directory is absent after every call fails where \<open>rm\<close> fails: the
  image cannot be inspected, the handler prints the output, the cleanup command exits
  non-zero, the call returns \<open>None\<close>, and the directory it created is still there.
\<close>

theorem scratch_directory_left_behind:
  "\<not> exists demo_env ''/tmp/tmpx'' (world (demo_state [] True False [[(''shared/foo'', ''bar'', [])]]))
   \<and> fst (run_broken False) = Inr None
   \<and> exists demo_env ''/tmp/tmpx'' (world (snd (run_broken False)))"
  unfolding run_broken_def
  by (simp add: eval_defs Let_def cong: bnd_cong_weak)

section \<open>The image id lookup\<close>

text \<open>
  C5. When the first lookup of the image id fails with a \<open>CalledProcessError\<close> whose
  output contains \<open>No such image\<close>, the program runs \<open>docker pull\<close> and, when the pull
  returned, the lookup once more: a failure of the pull or of the second lookup is raised,
  nothing more is run. When the output does not contain \<open>No such image\<close>, the same
  exception is raised again with only the first lookup run: no pull, no second lookup.
\<close>

theorem lookup_image_id_on_failure:
  assumes "check_output env True (inspect_id_cmd image_name) (world s)
             = (Inl (CalledProcessError out), w1)"
  shows "lookup_image_id env image_name verbose s =
     (if contains ''No such image'' out then
        (let t = trace s @ Sh (inspect_id_cmd image_name)
                   # (if verbose then [Print (''Pulling '' @ [CHR 0x27] @ image_name @ [CHR 0x27] @ ''...'')]
                      else [])
         in case check_output env True (pull_cmd image_name) w1 of
              (Inl e, w2) \<Rightarrow> (Inl e, s\<lparr>trace := t @ [Sh (pull_cmd image_name)], world := w2\<rparr>)
            | (Inr pull_out, w2) \<Rightarrow>
                (case check_output env True (inspect_id_cmd image_name) w2 of
                   (Inl e, w3) \<Rightarrow>
                     (Inl e, s\<lparr>trace := t @ [Sh (pull_cmd image_name), Sh (inspect_id_cmd image_name)],
                               world := w3\<rparr>)
                 | (Inr out2, w3) \<Rightarrow>
                     (case split_on CHR '':'' (strip (strip out2)) of
                        x # image_id # rest \<Rightarrow> Inr image_id
                      | _ \<Rightarrow> Inl (PyError ''IndexError''),
                      s\<lparr>trace := t @ [Sh (pull_cmd image_name), Sh (inspect_id_cmd image_name)],
                        world := w3\<rparr>)))
      else (Inl (CalledProcessError out),
            s\<lparr>trace := trace s @ [Sh (inspect_id_cmd image_name)], world := w1\<rparr>))"
  using assms
  by (auto simp: lookup_image_id_def catch_def get_image_id_def bnd_apply sh_apply when_do_def
        print_def emit_def ret_def throw_def Let_def
        split: prod.splits sum.splits list.splits)

theorem lookup_image_id_on_failure_witness:
  "check_output demo_env True (inspect_id_cmd ''alpine:latest'') (world (demo_state [] False True []))
     = (Inl (CalledProcessError ''Error: No such image: alpine:latest\<newline>''),
        \<lparr>present = [], pulled = False, rm_works = True\<rparr>)
   \<and> lookup_image_id demo_env ''alpine:latest'' True (demo_state [] False True [])
     = (Inr ''0a1b'',
        \<lparr>world = \<lparr>present = [], pulled = True, rm_works = True\<rparr>,
         trace = [Sh (inspect_id_cmd ''alpine:latest''),
                  Print (''Pulling '' @ [CHR 0x27] @ ''alpine:latest'' @ [CHR 0x27] @ ''...''),
                  Sh (pull_cmd ''alpine:latest''), Sh (inspect_id_cmd ''alpine:latest'')],
         heap = [], tmpdir_local = None\<rparr>)"
proof -
  have h: "check_output demo_env True (inspect_id_cmd ''alpine:latest'') (world (demo_state [] False True []))
     = (Inl (CalledProcessError ''Error: No such image: alpine:latest\<newline>''),
        \<lparr>present = [], pulled = False, rm_works = True\<rparr>)"
    by (simp add: demo_env_def demo_check_output_def demo_state_def)
  show ?thesis
    using lookup_image_id_on_failure[OF h, of True] h
    by (simp add: demo_env_def demo_check_output_def demo_state_def inspect_id_cmd_def pull_cmd_def
          strip_def is_space_def Let_def)
qed

section \<open>External-command failures\<close>

text \<open>A call never ends in a \<open>CalledProcessError\<close> or a \<open>KeyboardInterrupt\<close>.\<close>

lemma never_called_process_error:
  "fst (boinc2docker_create_work env image_name command input_files appname entrypoint
            prerun postrun sshgrid_mode verbose native_unzip memory dac progress_file
            vbox_job_xml create_work_args force_reimport s) \<noteq> Inl (CalledProcessError out) \<and>
   fst (boinc2docker_create_work env image_name command input_files appname entrypoint
            prerun postrun sshgrid_mode verbose native_unzip memory dac progress_file
            vbox_job_xml create_work_args force_reimport s) \<noteq> Inl KeyboardInterrupt"
proof -
  obtain a s0 where e: "enter_frame input_files s = (Inr a, s0)"
    using enter_frame_world by (metis surj_pair)
  let ?body = "create_work_body env (default_tag image_name) command a appname entrypoint
       (or_empty prerun) (or_empty postrun) sshgrid_mode verbose native_unzip memory dac
       vbox_job_xml (or_empty_dict create_work_args) force_reimport"
  obtain rb s1 where b: "?body s0 = (rb, s1)" by (metis surj_pair)
  have "boinc2docker_create_work env image_name command input_files appname entrypoint
            prerun postrun sshgrid_mode verbose native_unzip memory dac progress_file
            vbox_job_xml create_work_args force_reimport s = try_body env ?body s0"
    using e by (simp add: boinc2docker_create_work_def bnd_Inr)
  then show ?thesis
    using try_body_apply[where body="?body" and s=s0 and env=env, OF b]
    by (auto split: sum.splits exn.splits)
qed

text \<open>The command line prints the work unit and nothing else, and nothing for \<open>None\<close>.\<close>

lemma main_prints_work_unit:
  assumes "boinc2docker_create_work env IMAGE (Some (Words COMMAND)) None appname entrypoint
            None None sshgrid_mode (\<not> quiet) native_unzip
            (map_option (num_of_int (numbers env)) memory) True None
            None (Some create_work_args) force_reimport s = (Inr wu, s1)"
  shows "main env IMAGE COMMAND appname entrypoint native_unzip memory sshgrid_mode
           create_work_args quiet force_reimport s
         = (Inr (), case wu of None \<Rightarrow> s1 | Some w \<Rightarrow> s1\<lparr>trace := trace s1 @ [Print w]\<rparr>)"
  using assms
  by (simp add: main_def bnd_Inr ret_def print_def emit_def split: option.splits)




section \<open>Packaging a layer\<close>

lemma commands_append [simp]: "commands (xs @ ys) = commands xs @ commands ys"
  by (simp add: commands_def)

lemma commands_simps [simp]:
  "commands [] = []"
  "commands (Sh c # tr) = c # commands tr"
  "commands (Print l # tr) = commands tr"
  "commands (Exec argv # tr) = commands tr"
  by (simp_all add: commands_def)

lemma archive_commands:
  assumes "archive env verbose native_unzip msg tar_cmd path_tar s = (r, s')"
  shows "(r = Inr () \<and> commands (trace s') = commands (trace s) @ [tar_cmd, gzip_cmd native_unzip path_tar])
       \<or> (\<exists>e. r = Inl e \<and>
             (commands (trace s') = commands (trace s)
              \<or> commands (trace s') = commands (trace s) @ [tar_cmd]
              \<or> commands (trace s') = commands (trace s) @ [tar_cmd, gzip_cmd native_unzip path_tar]))"
  using assms
  by (auto simp: archive_def bnd_apply sh_apply when_do_def fmt_data_def print_def emit_def
        lift_def ret_def split: prod.splits sum.splits if_splits)

text \<open>
  C9, as the code has it. In a pass of the loop for a layer whose file in the download
  hierarchy is \<open>layer_path\<close>, the packager runs nothing, prints nothing and only appends
  the entry exactly when \<open>force_reimport\<close> is off and either the image was served from
  the cache (\<open>need_extract\<close> is off) or the layer file already exists. Otherwise it
  archives the layer: when the pass returns, \<open>tar\<close> and then \<open>gzip\<close> were run, and when it
  raises, it is the message, \<open>tar\<close> or \<open>gzip\<close> that failed.
\<close>

theorem package_layer_skips:
  assumes dir: "dir_hier_path env (''layer_'' @ fst (path_split layer) @ ''.tar'' @ gz_suffix native_unzip)
                  (world s) = (Inr layer_path, w1)"
    and run: "package_layer env tmpdir native_unzip force_reimport need_extract verbose layer s = (r, s')"
  shows "let layer_id = fst (path_split layer);
             layer_filename = ''layer_'' @ layer_id @ ''.tar'' @ gz_suffix native_unzip;
             layer_path_tar = path_join (dirname layer_path) (''layer_'' @ layer_id @ ''.tar'');
             entry = (''shared/image/'' @ layer_filename, Staged layer_filename, layer_flags native_unzip);
             tar = layer_tar_cmd layer_path_tar tmpdir layer_id;
             gz = gzip_cmd native_unzip layer_path_tar
         in if \<not> force_reimport \<and> (\<not> need_extract \<or> exists env layer_path w1)
            then r = Inr entry \<and> s' = s\<lparr>world := w1\<rparr>
            else (r = Inr entry \<and> commands (trace s') = commands (trace s) @ [tar, gz])
               \<or> (\<exists>e. r = Inl e \<and>
                     (commands (trace s') = commands (trace s)
                      \<or> commands (trace s') = commands (trace s) @ [tar]
                      \<or> commands (trace s') = commands (trace s) @ [tar, gz]))"
proof -
  let ?id = "fst (path_split layer)"
  let ?tarname = "''layer_'' @ ?id @ ''.tar''"
  let ?name = "''layer_'' @ ?id @ ''.tar'' @ gz_suffix native_unzip"
  let ?ptar = "path_join (dirname layer_path) ?tarname"
  let ?entry = "(''shared/image/'' @ ?name, Staged ?name, layer_flags native_unzip)"
  let ?s1 = "s\<lparr>world := w1\<rparr>"
  let ?arch = "archive env verbose native_unzip
                (''Creating input file for layer '' @ take 12 ?id @ ''...'')
                (layer_tar_cmd ?ptar tmpdir ?id) ?ptar"
  have eq: "package_layer env tmpdir native_unzip force_reimport need_extract verbose layer s
    = (if force_reimport \<or> (need_extract \<and> \<not> exists env layer_path w1)
       then bnd ?arch (\<lambda>_. ret ?entry) ?s1 else (Inr ?entry, ?s1))"
    using dir
    by (simp add: package_layer_def Let_def bnd_apply ext_def file_exists_def when_do_def ret_def)
  show ?thesis
  proof (cases "force_reimport \<or> (need_extract \<and> \<not> exists env layer_path w1)")
    case False
    with eq run show ?thesis by (auto simp: Let_def)
  next
    case True
    with eq run have b: "bnd ?arch (\<lambda>_. ret ?entry) ?s1 = (r, s')" by simp
    obtain ra sa where a: "?arch ?s1 = (ra, sa)" by (metis surj_pair)
    from archive_commands[OF a] b a have
      "(r = Inr ?entry \<and> commands (trace s') = commands (trace s) @ [layer_tar_cmd ?ptar tmpdir ?id, gzip_cmd native_unzip ?ptar])
       \<or> (\<exists>e. r = Inl e \<and>
             (commands (trace s') = commands (trace s)
              \<or> commands (trace s') = commands (trace s) @ [layer_tar_cmd ?ptar tmpdir ?id]
              \<or> commands (trace s') = commands (trace s) @ [layer_tar_cmd ?ptar tmpdir ?id, gzip_cmd native_unzip ?ptar]))"
      by (auto simp: bnd_apply ret_def split: sum.splits)
    with True show ?thesis by (auto simp: Let_def)
  qed
qed

theorem package_layer_skips_witness:
  "dir_hier_path demo_env (''layer_'' @ fst (path_split ''aa/layer.tar'') @ ''.tar'' @ gz_suffix False)
      (world (demo_state [] True True []))
     = (Inr ''/dl/layer_aa.tar.manual.gz'', \<lparr>present = [], pulled = True, rm_works = True\<rparr>)
   \<and> fst (package_layer demo_env ''/tmp/tmpx'' False False True False ''aa/layer.tar''
             (demo_state [] True True []))
     = Inr (''shared/image/layer_aa.tar.manual.gz'', Staged ''layer_aa.tar.manual.gz'',
            [''sticky'', ''no_delete''])
   \<and> commands (trace (snd (package_layer demo_env ''/tmp/tmpx'' False False True False
                             ''aa/layer.tar'' (demo_state [] True True []))))
     = [''tar cvf /dl/layer_aa.tar -C /tmp/tmpx aa'', ''gzip -fS .manual.gz /dl/layer_aa.tar'']"
proof -
  let ?s = "demo_state [] True True []"
  have dir: "dir_hier_path demo_env (''layer_'' @ fst (path_split ''aa/layer.tar'') @ ''.tar'' @ gz_suffix False)
      (world ?s) = (Inr ''/dl/layer_aa.tar.manual.gz'', \<lparr>present = [], pulled = True, rm_works = True\<rparr>)"
    by (simp add: demo_env_def demo_state_def path_split_def gz_suffix_def)
  have run: "package_layer demo_env ''/tmp/tmpx'' False False True False ''aa/layer.tar'' ?s
    = (fst (package_layer demo_env ''/tmp/tmpx'' False False True False ''aa/layer.tar'' ?s),
       snd (package_layer demo_env ''/tmp/tmpx'' False False True False ''aa/layer.tar'' ?s))"
    by simp
  have nofail: "\<And>e. fst (package_layer demo_env ''/tmp/tmpx'' False False True False ''aa/layer.tar'' ?s) \<noteq> Inl e"
    by (simp add: eval_defs Let_def cong: bnd_cong_weak)
  show ?thesis
    using package_layer_skips[OF dir run] dir nofail
    by (simp add: Let_def demo_env_def demo_state_def path_split_def gz_suffix_def path_join_def
          dirname_def layer_tar_cmd_def gzip_cmd_def layer_flags_def)
qed

text \<open>
  The claim that a layer is skipped only when the image was served from the cache fails
  for a layer another image has already staged: the image was exported afresh
  (\<open>need_extract\<close> is on, \<open>force_reimport\<close> off), the layer file exists, and the pass runs
  no command and leaves the state as it was.
\<close>

theorem shared_layer_skipped_after_export:
  "exists demo_env ''/dl/layer_aa.tar.manual.gz'' (world (demo_state [''/dl/layer_aa.tar.manual.gz''] True True []))
   \<and> package_layer demo_env ''/tmp/tmpx'' False False True False ''aa/layer.tar''
        (demo_state [''/dl/layer_aa.tar.manual.gz''] True True [])
     = (Inr (''shared/image/layer_aa.tar.manual.gz'', Staged ''layer_aa.tar.manual.gz'',
             [''sticky'', ''no_delete'']),
        demo_state [''/dl/layer_aa.tar.manual.gz''] True True [])"
  by (simp add: eval_defs Let_def cong: bnd_cong_weak)

section \<open>The caller's list of input files\<close>














section \<open>sshgrid mode\<close>

text \<open>
  The body of \<open>if sshgrid_mode:\<close> never returns: when everything before line 173 has
  succeeded, reading \<open>server_pub\<close> raises \<open>NameError\<close>.
\<close>

lemma sshgrid_setup_never_returns:
  "\<exists>e. fst (sshgrid_setup env a tmpdir image_name image_id command entrypoint appname verbose
             create_work_args s) = Inl e"
  unfolding sshgrid_setup_def Let_def
  by (auto simp: bnd_apply when_do_def print_def emit_def ext_def new_uuid_def ssh_keygen_def
        peek_def append_file_def lift_def load_name_def ret_def
        split: prod.splits sum.splits)

text \<open>
  C6 on the code: a call with sshgrid mode on, in a world where every command and library
  call succeeds, ends in \<open>NameError\<close>. The caller's list has received the tuples of
  \<open>vbox_job.xml\<close>, \<open>shared/id_rsa\<close> and \<open>shared/id_rsa.pub\<close>; no tuple of
  \<open>shared/authorized_keys\<close> is appended, and none of \<open>shared/boinc_app\<close>.
\<close>

theorem sshgrid_mode_raises_name_error:
  "fst (run_alpine True True) = Inl (PyError ''NameError'')
   \<and> map fst (heap (snd (run_alpine True True)) ! 0)
     = [''shared/foo'', ''vbox_job.xml'', ''shared/id_rsa'', ''shared/id_rsa.pub'']"
  unfolding run_alpine_def
  by (simp add: eval_defs Let_def cong: bnd_cong_weak)

section \<open>The input template\<close>

lemma template_loop_eq:
  "template_loop i fs infos refs =
     (infos @ map (\<lambda>(k, (n, p, fl)). file_info k fl) (enumerate i fs),
      refs @ map (\<lambda>(k, (n, p, fl)). file_ref k n) (enumerate i fs))"
  by (induction fs arbitrary: i infos refs) auto

lemma xml_tag_file_info [simp]: "xml_tag (file_info k fl) = ''file_info''"
  by (simp add: file_info_def)

lemma xml_tag_file_ref [simp]: "xml_tag (file_ref k n) = ''file_ref''"
  by (simp add: file_ref_def)

lemma template_file_refs_eq:
  "template_file_refs (input_template fs) = map (\<lambda>(k, (n, p, fl)). file_ref k n) (enumerate 0 fs)"
proof -
  have a: "filter (\<lambda>c. xml_tag c = ''workunit'') (map (\<lambda>(k, (n, p, fl)). file_info k fl) xs) = []" for xs :: "(nat \<times> in_file) list"
    by (induction xs) auto
  have b: "filter (\<lambda>c. xml_tag c = ''file_ref'') (map (\<lambda>(k, (n, p, fl)). file_ref k n) xs)
           = map (\<lambda>(k, (n, p, fl)). file_ref k n) xs" for xs :: "(nat \<times> in_file) list"
    by (induction xs) auto
  show ?thesis
    by (simp add: template_file_refs_def input_template_def template_loop_eq findall_def a b)
qed

lemma digit_is_digit: "d < 10 \<Longrightarrow> is_digit (''0123456789'' ! d)"
  unfolding is_digit_def by (rule nth_mem) simp

lemma digit_value: "d < 10 \<Longrightarrow> (of_char (''0123456789'' ! d) :: nat) = 48 + d"
proof -
  assume "d < 10"
  then have "d \<in> {0, 1, 2, 3, 4, 5, 6, 7, 8, 9}" by auto
  then show ?thesis by (elim insertE emptyE) simp_all
qed

lemma str_nat_digits: "str_nat n \<noteq> [] \<and> list_all is_digit (str_nat n)"
proof (induction n rule: str_nat.induct)
  case (1 n)
  show ?case
  proof (cases "n < 10")
    case True
    then show ?thesis using digit_is_digit[of n] by (subst str_nat.simps, subst str_nat.simps) simp
  next
    case False
    have "n mod 10 < 10" by simp
    with False 1 digit_is_digit[of "n mod 10"] show ?thesis
      by (subst str_nat.simps, subst (2) str_nat.simps) simp
  qed
qed

lemma digits_val_snoc: "digits_val (ds @ [c]) = 10 * digits_val ds + (of_char c - 48)"
  by (simp add: digits_val_def)

lemma digits_val_str_nat: "digits_val (str_nat n) = n"
proof (induction n rule: str_nat.induct)
  case (1 n)
  show ?case
  proof (cases "n < 10")
    case True
    then show ?thesis
      by (subst str_nat.simps) (simp add: digits_val_def digit_value)
  next
    case False
    have "n mod 10 < 10" by simp
    then have "(of_char (''0123456789'' ! (n mod 10)) :: nat) - 48 = n mod 10"
      by (simp add: digit_value)
    with False 1 show ?thesis
      by (subst str_nat.simps) (simp add: digits_val_snoc)
  qed
qed

lemma digit_not_space: "is_digit c \<Longrightarrow> \<not> is_space c"
  by (auto simp: is_digit_def is_space_def)

lemma digit_not_sign: "is_digit c \<Longrightarrow> c \<noteq> CHR ''-'' \<and> c \<noteq> CHR ''+''"
  by (auto simp: is_digit_def)

lemma strip_digits:
  assumes "s \<noteq> []" "list_all is_digit s"
  shows "strip s = s"
proof -
  have "is_digit (hd s)" "is_digit (last s)"
    using assms by (simp_all add: list_all_iff)
  then have "\<not> is_space (hd s)" "\<not> is_space (hd (rev s))"
    using assms(1) by (simp_all add: digit_not_space hd_rev)
  then have "dropWhile is_space s = s" "dropWhile is_space (rev s) = rev s"
    by (simp_all add: dropWhile_eq_self_iff)
  then show ?thesis by (simp add: strip_def)
qed

lemma parse_int_str_nat: "parse_int (str_nat n) = Some (int n)"
proof -
  have d: "str_nat n \<noteq> []" "list_all is_digit (str_nat n)"
    using str_nat_digits by auto
  then have "is_digit (hd (str_nat n))"
    by (simp add: list_all_iff)
  then have sign: "hd (str_nat n) \<noteq> CHR ''-''" "hd (str_nat n) \<noteq> CHR ''+''"
    using digit_not_sign by auto
  have "parse_int (str_nat n) =
     (if str_nat n \<noteq> [] \<and> list_all is_digit (str_nat n)
      then Some (int (digits_val (str_nat n))) else None)"
    unfolding parse_int_def strip_digits[OF d] Let_def using d(1) sign by simp
  then show ?thesis
    using d by (simp add: digits_val_str_nat)
qed

text \<open>
  C1. \<open>submit\<close> builds the template from the final sequence of input files, the one whose
  second components it hands to \<open>create_work\<close>. For every such sequence of length \<open>n\<close> the
  template has \<open>n\<close> \<open>file_ref\<close> elements under \<open>workunit\<close>, and for every \<open>i < n\<close> the
  text of \<open>file_number\<close> in the \<open>i\<close>-th of them is the decimal numeral of \<open>i\<close> (which
  \<open>int\<close> reads back as \<open>i\<close>) and the text of its \<open>open_name\<close> is the open name of the
  \<open>i\<close>-th input file.
\<close>

theorem input_template_file_refs:
  assumes "i < length input_files"
  shows "length (template_file_refs (input_template input_files)) = length input_files
       \<and> findtext ''file_number'' (template_file_refs (input_template input_files) ! i)
           = Some (str_nat i)
       \<and> parse_int (str_nat i) = Some (int i)
       \<and> findtext ''open_name'' (template_file_refs (input_template input_files) ! i)
           = Some (fst (input_files ! i))"
proof -
  have "template_file_refs (input_template input_files) ! i
        = (\<lambda>(k, (n, p, fl)). file_ref k n) (i, input_files ! i)"
    using assms by (simp add: template_file_refs_eq nth_enumerate_eq)
  then have "template_file_refs (input_template input_files) ! i
        = file_ref i (fst (input_files ! i))"
    by (simp add: case_prod_beta)
  then show ?thesis
    by (simp add: template_file_refs_eq parse_int_str_nat findtext_def findall_def file_ref_def)
qed

theorem input_template_file_refs_witness:
  "(1::nat) < length [(''vbox_job.xml'', Inline ''vbox_job.xml'' ''<vbox_job/>'', []),
                      (''shared/image/layer_aa.tar'', Staged ''layer_aa.tar'', [''sticky'', ''no_delete''])]
   \<and> findtext ''file_number''
        (template_file_refs (input_template
           [(''vbox_job.xml'', Inline ''vbox_job.xml'' ''<vbox_job/>'', []),
            (''shared/image/layer_aa.tar'', Staged ''layer_aa.tar'', [''sticky'', ''no_delete''])]) ! 1)
       = Some ''1''
   \<and> findtext ''open_name''
        (template_file_refs (input_template
           [(''vbox_job.xml'', Inline ''vbox_job.xml'' ''<vbox_job/>'', []),
            (''shared/image/layer_aa.tar'', Staged ''layer_aa.tar'', [''sticky'', ''no_delete''])]) ! 1)
       = Some ''shared/image/layer_aa.tar''"
proof -
  have h: "(1::nat) < length [(''vbox_job.xml'', Inline ''vbox_job.xml'' ''<vbox_job/>'', []),
                      (''shared/image/layer_aa.tar'', Staged ''layer_aa.tar'', [''sticky'', ''no_delete''])]"
    by simp
  have s: "str_nat 1 = ''1''" by (simp add: str_nat.simps)
  show ?thesis
    using input_template_file_refs[OF h] s by simp
qed

section \<open>Properties of the memory estimator\<close>


text \<open>
  C3, as the code has it. A supplied override \<open>M\<close> is returned unchanged for every image
  size, below the computed minimum as well as at or above it. The warning about an override
  below the minimum is printed when \<open>verbose\<close> is set and only then, and below means that
  the program's own comparison \<open>M < need\<close> holds for the \<open>need\<close> it computed; nothing is
  printed for an override that is not below it. The one way not to return \<open>M\<close> is a \<open>%i\<close>
  conversion that raises while the warning is put together.
\<close>

theorem memory_check_override:
  "memory_check ar S (Some M) verbose =
     (let need = num_add ar (num_mul ar (num_of_int ar 4) S) (num_of_int ar 500) in
      if verbose \<and> num_less ar M need then
        (case num_percent_i ar M of
           Inl e \<Rightarrow> Inl e
         | Inr memory_digits \<Rightarrow>
             (case num_percent_i ar need of
                Inl e \<Rightarrow> Inl e
              | Inr need_digits \<Rightarrow> Inr ([low_memory_msg memory_digits need_digits], M)))
      else Inr ([], M))"
  by (simp add: memory_check_def Let_def)

text \<open>
  The claim that an override below the minimum always comes with a warning fails for a
  quiet call: image size 100, override 10 (the minimum is 900), \<open>verbose\<close> off, all of them
  Python ints.
\<close>

theorem memory_check_quiet_no_warning:
  "num_less int_numbers 10 (num_add int_numbers (num_mul int_numbers (num_of_int int_numbers 4) 100)
                              (num_of_int int_numbers 500))
   \<and> memory_check int_numbers 100 (Some 10) False = Inr ([], 10)"
  by (simp add: memory_check_def int_numbers_def Let_def)

end
